theory Spec2Isabelle
  imports Main "HOL-Library.Word"
begin

unbundle bit_operations_syntax

section \<open>Machine types and status codes\<close>

type_synonym uint8_t = "8 word"
type_synonym uint16_t = "16 word"
type_synonym uint32_t = "32 word"

text \<open>
  The members of \<^verbatim>\<open>wiced_bt_gatt_status_e\<close> that the sources name. The enumeration
  belongs to the Bluetooth stack; its member \<^verbatim>\<open>WICED_BT_GATT_SUCCESS\<close> has the value 0.
\<close>

datatype wiced_bt_gatt_status_e =
    WICED_BT_GATT_SUCCESS
  | WICED_BT_GATT_INVALID_HANDLE
  | WICED_BT_GATT_INVALID_PDU
  | WICED_BT_GATT_REQ_NOT_SUPPORTED
  | WICED_BT_GATT_INVALID_OFFSET
  | WICED_BT_GATT_INVALID_ATTR_LEN
  | WICED_BT_GATT_ERR_UNLIKELY
  | WICED_BT_GATT_INSUF_RESOURCE
  | WICED_BT_GATT_ERROR

section \<open>Attribute store (ble\_gatt.cpp)\<close>

text \<open>
  One row of \<^verbatim>\<open>app_gatt_db_ext_attr_tbl\<close>. The pointer \<^verbatim>\<open>p_data\<close> is \<open>None\<close> when it
  is \<^verbatim>\<open>nullptr\<close> and otherwise holds the bytes of the buffer it points to.
\<close>

record gatt_db_lookup_table_t =
  handle :: uint16_t
  max_len :: uint16_t
  cur_len :: uint16_t
  p_data :: "uint8_t list option"

text \<open>The bytes that can be read through a pointer: none through \<^verbatim>\<open>nullptr\<close>.\<close>

definition deref :: "uint8_t list option \<Rightarrow> uint8_t list" where
  "deref p = (case p of None \<Rightarrow> [] | Some bs \<Rightarrow> bs)"

text \<open>
  \<^verbatim>\<open>std::memcpy(dest, src, n)\<close> and \<^verbatim>\<open>std::memset(dest + off, c, n)\<close> on a buffer given by
  its bytes. Both are meant for \<open>n \<le> length src\<close> and \<open>off + n \<le> length dest\<close>; outside
  of that the C++ calls have no defined behaviour, and the theorems below assume that
  every buffer of the table has the capacity its row declares.
\<close>

definition memcpy :: "uint8_t list \<Rightarrow> uint8_t list \<Rightarrow> nat \<Rightarrow> uint8_t list" where
  "memcpy dest src n = take n src @ drop n dest"

definition memset :: "uint8_t list \<Rightarrow> nat \<Rightarrow> uint8_t \<Rightarrow> nat \<Rightarrow> uint8_t list" where
  "memset dest off c n = take off dest @ replicate n c @ drop (off + n) dest"

text \<open>
  The loop of \<^verbatim>\<open>ble_gatt_db_set_value\<close> over the rows of the table: rows with another
  handle are skipped, the first row with the handle is checked and written, and the
  loop ends there. The status starts as \<^verbatim>\<open>WICED_BT_GATT_INVALID_HANDLE\<close>.
\<close>

fun set_value_loop ::
  "gatt_db_lookup_table_t list \<Rightarrow> uint16_t \<Rightarrow> uint8_t list option \<Rightarrow> uint16_t
    \<Rightarrow> wiced_bt_gatt_status_e \<times> gatt_db_lookup_table_t list" where
  "set_value_loop [] attr_handle val len = (WICED_BT_GATT_INVALID_HANDLE, [])"
| "set_value_loop (entry # rest) attr_handle val len =
     (if handle entry \<noteq> attr_handle then
        (let (status, rest') = set_value_loop rest attr_handle val len
         in (status, entry # rest'))
      else if max_len entry < len then (WICED_BT_GATT_INVALID_ATTR_LEN, entry # rest)
      else case p_data entry of
        None \<Rightarrow> (WICED_BT_GATT_ERROR, entry # rest)
      | Some buf \<Rightarrow>
          (let copied = memcpy buf (deref val) (unat len);
               zeroed = (if max_len entry > len
                         then memset copied (unat len) 0 (unat (max_len entry - len))
                         else copied)
           in (WICED_BT_GATT_SUCCESS,
               entry\<lparr>cur_len := len, p_data := Some zeroed\<rparr> # rest)))"

definition ble_gatt_db_set_value ::
  "gatt_db_lookup_table_t list \<Rightarrow> uint16_t \<Rightarrow> uint8_t list option \<Rightarrow> uint16_t
    \<Rightarrow> wiced_bt_gatt_status_e \<times> gatt_db_lookup_table_t list" where
  "ble_gatt_db_set_value tbl attr_handle val len =
     (if len > 0 \<and> val = None then (WICED_BT_GATT_INVALID_PDU, tbl)
      else set_value_loop tbl attr_handle val len)"

text \<open>\<^verbatim>\<open>std::find_if\<close> over the table: the first row with the handle, if any.\<close>

fun ble_gatt_db_find_by_handle ::
  "gatt_db_lookup_table_t list \<Rightarrow> uint16_t \<Rightarrow> gatt_db_lookup_table_t option" where
  "ble_gatt_db_find_by_handle [] h = None"
| "ble_gatt_db_find_by_handle (entry # rest) h =
     (if handle entry = h then Some entry else ble_gatt_db_find_by_handle rest h)"

text \<open>Every buffer of the table has the capacity \<^verbatim>\<open>max_len\<close> that its row declares.\<close>

definition buffers_sized :: "gatt_db_lookup_table_t list \<Rightarrow> bool" where
  "buffers_sized tbl =
     list_all (\<lambda>e. case p_data e of None \<Rightarrow> True | Some buf \<Rightarrow> length buf = unat (max_len e)) tbl"

section \<open>Requests, collaborators and effects\<close>

text \<open>
  The opcodes of \<^verbatim>\<open>wiced_bt_gatt_opcode_e\<close>: the thirteen that the dispatcher names, and
  further members of the stack's enumeration that it does not name.
\<close>

datatype wiced_bt_gatt_opcode_e =
    GATT_REQ_READ
  | GATT_REQ_READ_BLOB
  | GATT_REQ_READ_BY_TYPE
  | GATT_REQ_READ_MULTI
  | GATT_REQ_READ_MULTI_VAR_LENGTH
  | GATT_REQ_WRITE
  | GATT_CMD_WRITE
  | GATT_CMD_SIGNED_WRITE
  | GATT_REQ_PREPARE_WRITE
  | GATT_REQ_EXECUTE_WRITE
  | GATT_REQ_MTU
  | GATT_HANDLE_VALUE_CONF
  | GATT_HANDLE_VALUE_NOTIF
  | GATT_REQ_FIND_INFO
  | GATT_REQ_FIND_TYPE_VALUE
  | GATT_REQ_READ_BY_GRP_TYPE
  | GATT_HANDLE_VALUE_IND
  | GATT_HANDLE_VALUE_MULTI_NOTIF

datatype wiced_result_t =
    WICED_BT_SUCCESS
  | WICED_BT_ERROR
  | WICED_BT_BUSY
  | WICED_BT_NO_RESOURCES

datatype cy_rslt_t =
    CY_RSLT_SUCCESS
  | CY_RSLT_TYPE_ERROR
  | CY_RSLT_OTA_ERROR_BADARG
  | CY_RSLT_OTA_ERROR_GENERAL

datatype cy_ota_agent_state_t =
    CY_OTA_STATE_NOT_INITIALIZED
  | CY_OTA_STATE_AGENT_WAITING
  | CY_OTA_STATE_DATA_DOWNLOAD
  | CY_OTA_STATE_VERIFY
  | CY_OTA_STATE_OTA_COMPLETE

datatype cy_ota_connection_t = CY_OTA_CONNECTION_UNKNOWN | CY_OTA_CONNECTION_BLE

datatype wiced_bt_ble_advert_mode_e =
    BTM_BLE_ADVERT_OFF
  | BTM_BLE_ADVERT_UNDIRECTED_HIGH
  | BTM_BLE_ADVERT_UNDIRECTED_LOW

text \<open>An opaque engine context pointer: \<open>None\<close> is \<^verbatim>\<open>nullptr\<close>.\<close>

type_synonym cy_ota_context_ptr = "nat option"

record wiced_bt_gatt_read_t =
  handle_rd :: uint16_t
  offset :: uint16_t

record wiced_bt_gatt_read_by_type_t =
  s_handle :: uint16_t
  e_handle :: uint16_t
  uuid :: "uint8_t list"

text \<open>
  The handle stream of a read-multiple request is read through
  \<^verbatim>\<open>wiced_bt_gatt_get_handle_from_stream(p_handle_stream, i)\<close>: a handle for every index.
\<close>

record wiced_bt_gatt_read_multiple_req_t =
  num_handles :: uint16_t
  p_handle_stream :: "nat \<Rightarrow> uint16_t"

record wiced_bt_gatt_write_req_t =
  handle_wr :: uint16_t
  p_val :: "uint8_t list option"
  val_len :: uint16_t

text \<open>
  The union \<^verbatim>\<open>attribute_request.data\<close>, as what each of its members reads; a handler
  reads the member that belongs to its opcode.
\<close>

record wiced_bt_gatt_request_data_t =
  read_req :: wiced_bt_gatt_read_t
  read_by_type :: wiced_bt_gatt_read_by_type_t
  read_multiple_req :: wiced_bt_gatt_read_multiple_req_t
  write_req :: wiced_bt_gatt_write_req_t
  remote_mtu :: uint16_t

record wiced_bt_gatt_attribute_request_t =
  conn_id :: uint16_t
  opcode :: wiced_bt_gatt_opcode_e
  len_requested :: uint16_t
  data :: wiced_bt_gatt_request_data_t

record wiced_bt_gatt_connection_status_t =
  bd_addr :: "uint8_t list"
  conn_id_cs :: uint16_t
  connected_cs :: bool

text \<open>The application context handed along with a buffer: \<^verbatim>\<open>std::free\<close> or \<^verbatim>\<open>nullptr\<close>.\<close>

datatype release_cb = Release_free | Release_none

datatype duty_cycle = duty_off | duty_blinking | duty_on

text \<open>What a handler does to its collaborators, in the order it does it.\<close>

datatype effect =
    Malloc nat bool
  | Free
  | Response_buffer_provided bool release_cb
  | Send_read_handle_rsp uint16_t wiced_bt_gatt_opcode_e uint16_t "uint8_t list" release_cb
  | Send_read_by_type_rsp uint16_t wiced_bt_gatt_opcode_e uint8_t int "uint8_t list" release_cb
  | Send_read_multiple_rsp uint16_t wiced_bt_gatt_opcode_e int "uint8_t list" release_cb
  | Send_write_rsp uint16_t wiced_bt_gatt_opcode_e uint16_t
  | Send_execute_write_rsp uint16_t wiced_bt_gatt_opcode_e
  | Send_mtu_rsp uint16_t uint16_t uint16_t
  | Send_error_rsp uint16_t wiced_bt_gatt_opcode_e uint16_t wiced_bt_gatt_status_e
  | Send_notification uint16_t uint16_t "uint8_t list"
  | Start_advertisements wiced_bt_ble_advert_mode_e
  | Led_stop
  | Led_set_blink_rate duty_cycle
  | Led_start
  | Ota_agent_start
  | Ota_ble_download_prepare cy_ota_context_ptr uint16_t uint16_t
  | Ota_ble_download cy_ota_context_ptr uint16_t uint16_t
  | Ota_ble_download_verify cy_ota_context_ptr uint16_t
  | Ota_ble_download_abort cy_ota_context_ptr
  | Ota_ble_download_write cy_ota_context_ptr
  | Ota_get_state cy_ota_context_ptr
  | Ota_agent_stop cy_ota_context_ptr
  | Rtos_delay_milliseconds nat
  | NVIC_SystemReset

text \<open>
  The ways a handler ends without returning: the endless delay loop of
  \<^verbatim>\<open>ota_agent_initialize\<close>, the reset of \<^verbatim>\<open>ota_agent_confirmation_handler\<close>, an \<^verbatim>\<open>int\<close>
  counter leaving its range, and \<^verbatim>\<open>p_val[0]\<close> of a write without a value.
\<close>

datatype fault =
    Spins_forever
  | System_reset
  | Signed_overflow
  | Out_of_bounds_read

text \<open>
  The answers of the collaborators (allocator, Bluetooth stack, update engine, LED) and
  the constants of the generated headers, none of which is part of these sources. The
  stream encoders return the bytes they put into the stream (\<open>filled\<close> is their number);
  \<^verbatim>\<open>wiced_bt_gatt_put_read_by_type_rsp_in_stream\<close> also returns the pair length it leaves
  in \<^verbatim>\<open>*p_pair_len\<close>.
\<close>

record env =
  malloc_succeeds :: "nat \<Rightarrow> bool"
  wiced_bt_gatt_find_handle_by_type :: "uint16_t \<Rightarrow> uint16_t \<Rightarrow> uint8_t list \<Rightarrow> uint16_t"
  wiced_bt_gatt_put_read_by_type_rsp_in_stream ::
    "int \<Rightarrow> uint8_t \<Rightarrow> uint16_t \<Rightarrow> uint16_t \<Rightarrow> uint8_t list option \<Rightarrow> uint8_t list \<times> uint8_t"
  wiced_bt_gatt_put_read_multi_rsp_in_stream ::
    "wiced_bt_gatt_opcode_e \<Rightarrow> int \<Rightarrow> uint16_t \<Rightarrow> uint16_t \<Rightarrow> uint8_t list option \<Rightarrow> uint8_t list"
  wiced_bt_gatt_server_send_read_handle_rsp ::
    "uint16_t \<Rightarrow> wiced_bt_gatt_opcode_e \<Rightarrow> uint16_t \<Rightarrow> wiced_bt_gatt_status_e"
  wiced_bt_gatt_server_send_mtu_rsp :: "uint16_t \<Rightarrow> uint16_t \<Rightarrow> uint16_t \<Rightarrow> wiced_bt_gatt_status_e"
  wiced_bt_start_advertisements :: wiced_result_t
  front_led_start :: cy_rslt_t
  cy_ota_agent_start :: "cy_rslt_t \<times> cy_ota_context_ptr"
  cy_ota_ble_download_prepare :: cy_rslt_t
  cy_ota_ble_download :: cy_rslt_t
  cy_ota_ble_download_verify :: cy_rslt_t
  cy_ota_ble_download_abort :: cy_rslt_t
  cy_ota_ble_download_write :: cy_rslt_t
  cy_ota_get_state :: "cy_ota_context_ptr \<Rightarrow> cy_ota_agent_state_t option"
  cy_ota_agent_stop :: "cy_ota_context_ptr \<Rightarrow> cy_ota_context_ptr"
  ble_max_rx_pdu_size :: uint16_t
  HDLD_OTA_FW_UPGRADE_SERVICE_OTA_UPGRADE_CONTROL_POINT_CLIENT_CHAR_CONFIG :: uint16_t
  HDLC_OTA_FW_UPGRADE_SERVICE_OTA_UPGRADE_CONTROL_POINT_VALUE :: uint16_t
  HDLC_OTA_FW_UPGRADE_SERVICE_OTA_UPGRADE_DATA_VALUE :: uint16_t
  CY_OTA_UPGRADE_COMMAND_PREPARE_DOWNLOAD :: uint8_t
  CY_OTA_UPGRADE_COMMAND_DOWNLOAD :: uint8_t
  CY_OTA_UPGRADE_COMMAND_VERIFY :: uint8_t
  CY_OTA_UPGRADE_COMMAND_ABORT :: uint8_t

section \<open>The context object (ble\_context.hpp)\<close>

datatype state =
    disconnected_not_advertising
  | disconnected_and_advertising
  | connected

text \<open>
  The members of \<^verbatim>\<open>ble_context\<close> that the handlers read or write. The parameter blocks
  \<^verbatim>\<open>m_connection_parameters\<close>, \<^verbatim>\<open>m_ota_agent_params\<close> and \<^verbatim>\<open>m_ota_network_params\<close> are
  only handed to the engine and are left out.
\<close>

record ble_context =
  m_tag :: uint32_t
  m_connection_id :: uint16_t
  m_peer_address :: "uint8_t list"
  m_connection_state :: state
  m_ota_context :: cy_ota_context_ptr
  m_connection_type :: cy_ota_connection_t
  m_reboot_at_end :: bool
  m_ota_config_descriptor :: uint16_t

definition OTA_APP_TAG_VALID :: uint32_t where
  "OTA_APP_TAG_VALID = 0x51EDBA15"

definition BLE_CONTEXT_TAG_VALID :: uint32_t where
  "BLE_CONTEXT_TAG_VALID = 0x51EDBA15"

definition BLE_CONTEXT_TAG_INVALID :: uint32_t where
  "BLE_CONTEXT_TAG_INVALID = 0xDEADBEEF"

definition BD_ADDR_LEN :: nat where
  "BD_ADDR_LEN = 6"

text \<open>The program state: the attribute table, the global context, and the effects so far.\<close>

record world =
  app_gatt_db_ext_attr_tbl :: "gatt_db_lookup_table_t list"
  ble_context_object :: ble_context
  trace :: "effect list"

type_synonym 'a result = "(fault \<times> world) + ('a \<times> world)"

definition emit :: "effect \<Rightarrow> world \<Rightarrow> world" where
  "emit e w = w\<lparr>trace := trace w @ [e]\<rparr>"

definition default_value_initialize :: "world \<Rightarrow> world" where
  "default_value_initialize w =
     w\<lparr>ble_context_object := (ble_context_object w)
         \<lparr>m_tag := BLE_CONTEXT_TAG_VALID,
          m_connection_id := 0,
          m_connection_state := disconnected_not_advertising\<rparr>\<rparr>"

definition ota_value_initialize :: "world \<Rightarrow> world" where
  "ota_value_initialize w =
     w\<lparr>ble_context_object := (ble_context_object w)
         \<lparr>m_ota_context := None,
          m_connection_type := CY_OTA_CONNECTION_BLE,
          m_reboot_at_end := True,
          m_ota_config_descriptor := 0\<rparr>\<rparr>"

definition set_advertising_mode :: "wiced_bt_ble_advert_mode_e \<Rightarrow> world \<Rightarrow> world" where
  "set_advertising_mode advertisement_mode w =
     w\<lparr>ble_context_object := (ble_context_object w)
         \<lparr>m_connection_state :=
            (if advertisement_mode = BTM_BLE_ADVERT_OFF
             then (if m_connection_id (ble_context_object w) = 0
                   then disconnected_not_advertising else connected)
             else disconnected_and_advertising)\<rparr>\<rparr>"

section \<open>Connection events and the LED (ble\_context.cpp)\<close>

definition update_advertising_led :: "env \<Rightarrow> world \<Rightarrow> cy_rslt_t \<times> world" where
  "update_advertising_led env w =
     (let duty = (case m_connection_state (ble_context_object w) of
                    disconnected_not_advertising \<Rightarrow> duty_off
                  | disconnected_and_advertising \<Rightarrow> duty_blinking
                  | connected \<Rightarrow> duty_on)
      in (front_led_start env,
          emit Led_start (emit (Led_set_blink_rate duty) (emit Led_stop w))))"

text \<open>
  The macro \<^verbatim>\<open>CY_ASSERT\<close> is not part of these sources, but the sources fix what it
  does. \<^verbatim>\<open>ble_gatt_command_write_handler\<close> asserts over \<^verbatim>\<open>p_data\<close> and \<^verbatim>\<open>p_write_req\<close>,
  names that no scope declares, so ble\_gatt.cpp compiles only where the macro discards
  its argument; that is the Release configuration, which the build and program scripts
  use and prescribe. There \<^verbatim>\<open>CY_ASSERT(x)\<close> expands to nothing, whatever \<open>x\<close> is: the
  statement after it is reached in the same state.
\<close>

definition CY_ASSERT :: "bool \<Rightarrow> world \<Rightarrow> world" where
  "CY_ASSERT cond w = w"

definition connection_event_handler ::
  "env \<Rightarrow> world \<Rightarrow> wiced_bt_gatt_connection_status_t option \<Rightarrow> wiced_bt_gatt_status_e result" where
  "connection_event_handler env w connection_status =
     (case connection_status of
        None \<Rightarrow> Inr (WICED_BT_GATT_ERROR, w)
      | Some cs \<Rightarrow>
          (if connected_cs cs then
             (let w1 = w\<lparr>ble_context_object := (ble_context_object w)
                         \<lparr>m_connection_id := conn_id_cs cs,
                          m_peer_address := take BD_ADDR_LEN (bd_addr cs),
                          m_connection_state := connected\<rparr>\<rparr>
              in Inr (WICED_BT_GATT_SUCCESS, snd (update_advertising_led env w1)))
           else
             (let w1 = w\<lparr>ble_context_object := (ble_context_object w)\<lparr>m_connection_id := 0\<rparr>\<rparr>;
                  w2 = emit (Start_advertisements BTM_BLE_ADVERT_UNDIRECTED_HIGH) w1;
                  result = wiced_bt_start_advertisements env;
                  w3 = (if result \<noteq> WICED_BT_SUCCESS then CY_ASSERT False w2 else w2);
                  w4 = w3\<lparr>ble_context_object := (ble_context_object w3)
                            \<lparr>m_connection_state := disconnected_and_advertising\<rparr>\<rparr>
              in Inr (WICED_BT_GATT_SUCCESS, snd (update_advertising_led env w4)))))"

section \<open>The update session (ble\_context.cpp)\<close>

definition ota_agent_initialize :: "env \<Rightarrow> world \<Rightarrow> cy_rslt_t result" where
  "ota_agent_initialize env w =
     (if m_tag (ble_context_object w) \<noteq> OTA_APP_TAG_VALID
      then Inr (CY_RSLT_OTA_ERROR_BADARG, w)
      else
        (let w1 = ota_value_initialize w;
             (result, started) = cy_ota_agent_start env;
             w2 = emit Ota_agent_start
                    (w1\<lparr>ble_context_object := (ble_context_object w1)\<lparr>m_ota_context := started\<rparr>\<rparr>)
         in if result \<noteq> CY_RSLT_SUCCESS then Inl (Spins_forever, w2)
            else Inr (result, w2)))"

text \<open>The status picked by \<^verbatim>\<open>result != CY_RSLT_SUCCESS\<close> after an engine call.\<close>

definition gatt_status_of :: "cy_rslt_t \<Rightarrow> wiced_bt_gatt_status_e" where
  "gatt_status_of result =
     (if result \<noteq> CY_RSLT_SUCCESS then WICED_BT_GATT_ERROR else WICED_BT_GATT_SUCCESS)"

definition ota_agent_write_handler ::
  "env \<Rightarrow> world \<Rightarrow> wiced_bt_gatt_write_req_t \<Rightarrow> (wiced_bt_gatt_status_e \<times> uint16_t) result" where
  "ota_agent_write_handler env w write_request =
     (let error_handle = handle_wr write_request;
          ctx = ble_context_object w
      in if handle_wr write_request =
              HDLD_OTA_FW_UPGRADE_SERVICE_OTA_UPGRADE_CONTROL_POINT_CLIENT_CHAR_CONFIG env then
           (case deref (p_val write_request) of
              [] \<Rightarrow> Inl (Out_of_bounds_read, w)
            | b # _ \<Rightarrow>
                Inr ((WICED_BT_GATT_SUCCESS, error_handle),
                     w\<lparr>ble_context_object := ctx\<lparr>m_ota_config_descriptor := ucast b\<rparr>\<rparr>))
         else if handle_wr write_request =
              HDLC_OTA_FW_UPGRADE_SERVICE_OTA_UPGRADE_CONTROL_POINT_VALUE env then
           (case deref (p_val write_request) of
              [] \<Rightarrow> Inl (Out_of_bounds_read, w)
            | command # _ \<Rightarrow>
                if command = CY_OTA_UPGRADE_COMMAND_PREPARE_DOWNLOAD env then
                  (case ota_agent_initialize env w of
                     Inl f \<Rightarrow> Inl f
                   | Inr (result, w1) \<Rightarrow>
                       if result \<noteq> CY_RSLT_SUCCESS
                       then Inr ((WICED_BT_GATT_ERROR, error_handle), w1)
                       else
                         (let c1 = ble_context_object w1;
                              w2 = emit (Ota_ble_download_prepare (m_ota_context c1)
                                     (m_connection_id c1) (m_ota_config_descriptor c1)) w1
                          in Inr ((gatt_status_of (cy_ota_ble_download_prepare env), error_handle), w2)))
                else if command = CY_OTA_UPGRADE_COMMAND_DOWNLOAD env then
                  Inr ((gatt_status_of (cy_ota_ble_download env), error_handle),
                       emit (Ota_ble_download (m_ota_context ctx) (m_connection_id ctx)
                              (m_ota_config_descriptor ctx)) w)
                else if command = CY_OTA_UPGRADE_COMMAND_VERIFY env then
                  Inr ((gatt_status_of (cy_ota_ble_download_verify env), error_handle),
                       emit (Ota_ble_download_verify (m_ota_context ctx) (m_connection_id ctx)) w)
                else if command = CY_OTA_UPGRADE_COMMAND_ABORT env then
                  Inr ((WICED_BT_GATT_SUCCESS, error_handle),
                       emit (Ota_ble_download_abort (m_ota_context ctx)) w)
                else Inr ((WICED_BT_GATT_REQ_NOT_SUPPORTED, error_handle), w))
         else if handle_wr write_request =
              HDLC_OTA_FW_UPGRADE_SERVICE_OTA_UPGRADE_DATA_VALUE env then
           Inr ((gatt_status_of (cy_ota_ble_download_write env), error_handle),
                emit (Ota_ble_download_write (m_ota_context ctx)) w)
         else Inr ((WICED_BT_GATT_REQ_NOT_SUPPORTED, error_handle), w))"

definition ota_agent_confirmation_handler :: "env \<Rightarrow> world \<Rightarrow> unit result" where
  "ota_agent_confirmation_handler env w =
     (let ctx = ble_context_object w;
          ota_lib_state = (case cy_ota_get_state env (m_ota_context ctx) of
                             None \<Rightarrow> CY_OTA_STATE_NOT_INITIALIZED
                           | Some s \<Rightarrow> s);
          w1 = emit (Ota_get_state (m_ota_context ctx)) w
      in if ota_lib_state = CY_OTA_STATE_OTA_COMPLETE \<and> m_reboot_at_end ctx
         then Inl (System_reset, emit NVIC_SystemReset (emit (Rtos_delay_milliseconds 1000) w1))
         else Inr ((), emit (Ota_agent_stop (m_ota_context ctx))
                         (w1\<lparr>ble_context_object :=
                               ctx\<lparr>m_ota_context := cy_ota_agent_stop env (m_ota_context ctx)\<rparr>\<rparr>)))"

section \<open>Request handlers (ble\_gatt.cpp)\<close>

text \<open>The macro \<^verbatim>\<open>MIN\<close>, on operands promoted to \<^verbatim>\<open>int\<close>.\<close>

definition MIN_of :: "int \<Rightarrow> int \<Rightarrow> int" where
  "MIN_of a b = (if a < b then a else b)"

definition INT_MAX :: int where
  "INT_MAX = 2147483647"

definition ble_gatt_request_read_handler ::
  "env \<Rightarrow> world \<Rightarrow> uint16_t \<Rightarrow> wiced_bt_gatt_opcode_e \<Rightarrow> wiced_bt_gatt_read_t \<Rightarrow> uint16_t
    \<Rightarrow> (wiced_bt_gatt_status_e \<times> uint16_t) result" where
  "ble_gatt_request_read_handler env w connection_id opc read_request length_requested =
     (let error_handle = handle_rd read_request
      in case ble_gatt_db_find_by_handle (app_gatt_db_ext_attr_tbl w) (handle_rd read_request) of
           None \<Rightarrow> Inr ((WICED_BT_GATT_INVALID_HANDLE, error_handle), w)
         | Some attribute \<Rightarrow>
             (let attr_length_to_copy = cur_len attribute
              in if offset read_request \<ge> cur_len attribute
                 then Inr ((WICED_BT_GATT_INVALID_OFFSET, error_handle), w)
                 else
                   (let length_to_send = (word_of_int
                          (MIN_of (uint length_requested)
                               (uint attr_length_to_copy - uint (offset read_request))) :: uint16_t);
                        attribute_data = drop (unat (offset read_request)) (deref (p_data attribute))
                    in Inr ((wiced_bt_gatt_server_send_read_handle_rsp env connection_id opc
                               length_to_send, error_handle),
                            emit (Send_read_handle_rsp connection_id opc length_to_send
                                    attribute_data Release_none) w))))"

text \<open>
  The ways out of the \<^verbatim>\<open>while (true)\<close> loop of the read-by-type handler: a \<^verbatim>\<open>break\<close>
  (no further match, or nothing filled), with the error handle, the pair length, the
  bytes used and the response so far; or the \<^verbatim>\<open>return\<close> for a match without a row.
\<close>

datatype read_by_type_exit =
    Scan_done uint16_t uint8_t int "uint8_t list"
  | Scan_no_attribute uint16_t

text \<open>
  \<^verbatim>\<open>used += filled\<close> on an \<^verbatim>\<open>int\<close>: leaving the range of \<^verbatim>\<open>int\<close> is a fault. Every
  round adds at least one byte, so the loop ends.
\<close>

function read_by_type_loop ::
  "env \<Rightarrow> gatt_db_lookup_table_t list \<Rightarrow> wiced_bt_gatt_read_by_type_t \<Rightarrow> uint16_t
    \<Rightarrow> uint16_t \<Rightarrow> uint8_t \<Rightarrow> int \<Rightarrow> uint8_t list \<Rightarrow> fault + read_by_type_exit" where
  "read_by_type_loop env tbl read_request length_requested attr_handle pair_length used response =
     (let error_handle = attr_handle;
          found = wiced_bt_gatt_find_handle_by_type env attr_handle (e_handle read_request)
                    (uuid read_request)
      in if found = 0 then Inr (Scan_done error_handle pair_length used response)
         else case ble_gatt_db_find_by_handle tbl found of
           None \<Rightarrow> Inr (Scan_no_attribute error_handle)
         | Some attribute \<Rightarrow>
             (let put = wiced_bt_gatt_put_read_by_type_rsp_in_stream env
                          (uint length_requested - used) pair_length found
                          (cur_len attribute) (p_data attribute);
                  filled = int (length (fst put))
              in if filled = 0 then Inr (Scan_done error_handle (snd put) used response)
                 else if used + filled > INT_MAX then Inl Signed_overflow
                 else read_by_type_loop env tbl read_request length_requested (found + 1)
                        (snd put) (used + filled) (response @ fst put)))"
  by pat_completeness auto
termination
  by (relation "measure (\<lambda>(env, tbl, read_request, length_requested, attr_handle,
                            pair_length, used, response). nat (INT_MAX + 1 - used))")
     (auto simp: INT_MAX_def)

declare read_by_type_loop.simps [simp del]

definition ble_gatt_request_read_by_type_handler ::
  "env \<Rightarrow> world \<Rightarrow> uint16_t \<Rightarrow> wiced_bt_gatt_opcode_e \<Rightarrow> wiced_bt_gatt_read_by_type_t
    \<Rightarrow> uint16_t \<Rightarrow> uint16_t \<Rightarrow> (wiced_bt_gatt_status_e \<times> uint16_t) result" where
  "ble_gatt_request_read_by_type_handler env w connection_id opc read_request
       length_requested error_handle =
     (let allocated = malloc_succeeds env (unat length_requested);
          w1 = emit (Malloc (unat length_requested) allocated) w
      in if \<not> allocated then Inr ((WICED_BT_GATT_INSUF_RESOURCE, error_handle), w1)
         else case read_by_type_loop env (app_gatt_db_ext_attr_tbl w) read_request
                     length_requested (s_handle read_request) 0 0 [] of
           Inl f \<Rightarrow> Inl (f, w1)
         | Inr (Scan_no_attribute eh) \<Rightarrow>
             Inr ((WICED_BT_GATT_INVALID_HANDLE, eh), emit Free w1)
         | Inr (Scan_done eh pair_length used response) \<Rightarrow>
             if used = 0 then Inr ((WICED_BT_GATT_INVALID_HANDLE, eh), emit Free w1)
             else Inr ((WICED_BT_GATT_SUCCESS, eh),
                       emit (Send_read_by_type_rsp connection_id opc pair_length used response
                               Release_free) w1))"

text \<open>
  The ways out of the \<^verbatim>\<open>for\<close> loop of the read-multiple handler: all handles done, a
  \<^verbatim>\<open>break\<close> after nothing was filled, or the \<^verbatim>\<open>return\<close> for a handle without a row.
\<close>

datatype read_multi_exit =
    Multi_completed uint16_t int "uint8_t list"
  | Multi_stopped uint16_t int "uint8_t list"
  | Multi_no_attribute uint16_t

fun read_multi_loop ::
  "env \<Rightarrow> gatt_db_lookup_table_t list \<Rightarrow> wiced_bt_gatt_opcode_e \<Rightarrow> uint16_t
    \<Rightarrow> uint16_t list \<Rightarrow> uint16_t \<Rightarrow> int \<Rightarrow> uint8_t list \<Rightarrow> fault + read_multi_exit" where
  "read_multi_loop env tbl opc length_requested [] error_handle used response =
     Inr (Multi_completed error_handle used response)"
| "read_multi_loop env tbl opc length_requested (h # hs) error_handle used response =
     (case ble_gatt_db_find_by_handle tbl h of
        None \<Rightarrow> Inr (Multi_no_attribute h)
      | Some attribute \<Rightarrow>
          (let put = wiced_bt_gatt_put_read_multi_rsp_in_stream env opc
                       (uint length_requested - used) (handle attribute)
                       (cur_len attribute) (p_data attribute);
               filled = int (length put)
           in if filled = 0 then Inr (Multi_stopped h used response)
              else if used + filled > INT_MAX then Inl Signed_overflow
              else read_multi_loop env tbl opc length_requested hs h (used + filled)
                     (response @ put)))"

text \<open>The handles of the stream, in the order the loop reads them.\<close>

definition handles_of :: "wiced_bt_gatt_read_multiple_req_t \<Rightarrow> uint16_t list" where
  "handles_of rq = map (p_handle_stream rq) [0..<unat (num_handles rq)]"

definition ble_gatt_request_read_multi_handler ::
  "env \<Rightarrow> world \<Rightarrow> uint16_t \<Rightarrow> wiced_bt_gatt_opcode_e \<Rightarrow> wiced_bt_gatt_read_multiple_req_t
    \<Rightarrow> uint16_t \<Rightarrow> (wiced_bt_gatt_status_e \<times> uint16_t) result" where
  "ble_gatt_request_read_multi_handler env w connection_id opc read_multiple_request
       length_requested =
     (let allocated = malloc_succeeds env (unat length_requested);
          w1 = emit (Malloc (unat length_requested) allocated) w;
          first_handle = p_handle_stream read_multiple_request 0
      in if \<not> allocated then Inr ((WICED_BT_GATT_INVALID_HANDLE, first_handle), w1)
         else case read_multi_loop env (app_gatt_db_ext_attr_tbl w) opc length_requested
                     (handles_of read_multiple_request) first_handle 0 [] of
           Inl f \<Rightarrow> Inl (f, w1)
         | Inr (Multi_no_attribute eh) \<Rightarrow>
             Inr ((WICED_BT_GATT_ERR_UNLIKELY, eh), emit Free w1)
         | Inr (Multi_completed eh used response) \<Rightarrow>
             if used = 0 then Inr ((WICED_BT_GATT_INVALID_HANDLE, eh), w1)
             else Inr ((WICED_BT_GATT_SUCCESS, eh),
                       emit (Send_read_multiple_rsp connection_id opc used response
                               Release_free) w1)
         | Inr (Multi_stopped eh used response) \<Rightarrow>
             if used = 0 then Inr ((WICED_BT_GATT_INVALID_HANDLE, eh), w1)
             else Inr ((WICED_BT_GATT_SUCCESS, eh),
                       emit (Send_read_multiple_rsp connection_id opc used response
                               Release_free) w1))"

text \<open>
  The \<^verbatim>\<open>CY_ASSERT\<close> at the head of \<^verbatim>\<open>ble_gatt_command_write_handler\<close>, like the one in
  \<^verbatim>\<open>ota_agent_write_handler\<close>, expands to nothing and has no part in the handler.
\<close>

definition ble_gatt_command_write_handler ::
  "env \<Rightarrow> world \<Rightarrow> wiced_bt_gatt_write_req_t \<Rightarrow> (wiced_bt_gatt_status_e \<times> uint16_t) result" where
  "ble_gatt_command_write_handler env w write_request =
     (let error_handle = handle_wr write_request
      in if handle_wr write_request \<in>
              {HDLD_OTA_FW_UPGRADE_SERVICE_OTA_UPGRADE_CONTROL_POINT_CLIENT_CHAR_CONFIG env,
               HDLC_OTA_FW_UPGRADE_SERVICE_OTA_UPGRADE_CONTROL_POINT_VALUE env,
               HDLC_OTA_FW_UPGRADE_SERVICE_OTA_UPGRADE_DATA_VALUE env}
         then ota_agent_write_handler env w write_request
         else
           (let (status, tbl') = ble_gatt_db_set_value (app_gatt_db_ext_attr_tbl w)
                                   (handle_wr write_request) (p_val write_request)
                                   (val_len write_request)
            in Inr ((status, error_handle), w\<lparr>app_gatt_db_ext_attr_tbl := tbl'\<rparr>)))"

section \<open>The dispatcher and the stack callback (ble\_gatt.cpp)\<close>

text \<open>
  \<^verbatim>\<open>ble_gatt_event_handler\<close>. Its status variable starts as \<^verbatim>\<open>wiced_bt_gatt_status_t{}\<close>,
  the value 0, which is \<^verbatim>\<open>WICED_BT_GATT_SUCCESS\<close>; the \<^verbatim>\<open>default\<close> branch leaves it so.
\<close>

definition ble_gatt_event_handler ::
  "env \<Rightarrow> world \<Rightarrow> wiced_bt_gatt_attribute_request_t \<Rightarrow> uint16_t
    \<Rightarrow> (wiced_bt_gatt_status_e \<times> uint16_t) result" where
  "ble_gatt_event_handler env w attr_request error_handle =
     (let status = WICED_BT_GATT_SUCCESS;
          opc = opcode attr_request
      in if opc = GATT_REQ_READ \<or> opc = GATT_REQ_READ_BLOB then
           ble_gatt_request_read_handler env w (conn_id attr_request) opc
             (read_req (data attr_request)) (len_requested attr_request)
         else if opc = GATT_REQ_READ_BY_TYPE then
           ble_gatt_request_read_by_type_handler env w (conn_id attr_request) opc
             (read_by_type (data attr_request)) (len_requested attr_request) error_handle
         else if opc = GATT_REQ_READ_MULTI \<or> opc = GATT_REQ_READ_MULTI_VAR_LENGTH then
           ble_gatt_request_read_multi_handler env w (conn_id attr_request) opc
             (read_multiple_req (data attr_request)) (len_requested attr_request)
         else if opc = GATT_REQ_WRITE \<or> opc = GATT_CMD_WRITE \<or> opc = GATT_CMD_SIGNED_WRITE then
           (case ble_gatt_command_write_handler env w (write_req (data attr_request)) of
              Inl f \<Rightarrow> Inl f
            | Inr ((write_status, eh), w1) \<Rightarrow>
                if opc = GATT_REQ_WRITE \<and> write_status = WICED_BT_GATT_SUCCESS
                then Inr ((write_status, eh),
                          emit (Send_write_rsp (conn_id attr_request) opc
                                  (handle_wr (write_req (data attr_request)))) w1)
                else Inr ((write_status, eh), w1))
         else if opc = GATT_REQ_PREPARE_WRITE then
           Inr ((WICED_BT_GATT_SUCCESS, error_handle), w)
         else if opc = GATT_REQ_EXECUTE_WRITE then
           Inr ((WICED_BT_GATT_SUCCESS, error_handle),
                emit (Send_execute_write_rsp (conn_id attr_request) opc) w)
         else if opc = GATT_REQ_MTU then
           Inr ((wiced_bt_gatt_server_send_mtu_rsp env (conn_id attr_request)
                   (remote_mtu (data attr_request)) (ble_max_rx_pdu_size env), error_handle),
                emit (Send_mtu_rsp (conn_id attr_request) (remote_mtu (data attr_request))
                        (ble_max_rx_pdu_size env)) w)
         else if opc = GATT_HANDLE_VALUE_CONF then
           (case ota_agent_confirmation_handler env w of
              Inl f \<Rightarrow> Inl f
            | Inr (_, w1) \<Rightarrow> Inr ((WICED_BT_GATT_SUCCESS, error_handle), w1))
         else if opc = GATT_HANDLE_VALUE_NOTIF then
           Inr ((WICED_BT_GATT_SUCCESS, error_handle), w)
         else Inr ((status, error_handle), w))"

text \<open>An event of the stack together with the member of the event data that it carries.\<close>

datatype wiced_bt_gatt_event =
    GATT_CONNECTION_STATUS_EVT wiced_bt_gatt_connection_status_t
  | GATT_ATTRIBUTE_REQUEST_EVT wiced_bt_gatt_attribute_request_t
  | GATT_GET_RESPONSE_BUFFER_EVT uint16_t
  | GATT_APP_BUFFER_TRANSMITTED_EVT release_cb
  | GATT_OTHER_EVT

definition ble_gatt_event_callback ::
  "env \<Rightarrow> world \<Rightarrow> wiced_bt_gatt_event \<Rightarrow> wiced_bt_gatt_status_e result" where
  "ble_gatt_event_callback env w event =
     (case event of
        GATT_CONNECTION_STATUS_EVT connection_status \<Rightarrow>
          connection_event_handler env w (Some connection_status)
      | GATT_ATTRIBUTE_REQUEST_EVT attr_request \<Rightarrow>
          (case ble_gatt_event_handler env w attr_request 0 of
             Inl f \<Rightarrow> Inl f
           | Inr ((status, error_handle), w1) \<Rightarrow>
               if status \<noteq> WICED_BT_GATT_SUCCESS
               then Inr (status, emit (Send_error_rsp (conn_id attr_request) (opcode attr_request)
                                         error_handle status) w1)
               else Inr (status, w1))
      | GATT_GET_RESPONSE_BUFFER_EVT len \<Rightarrow>
          (let allocated = malloc_succeeds env (unat len)
           in Inr (WICED_BT_GATT_SUCCESS,
                   emit (Response_buffer_provided allocated Release_free)
                     (emit (Malloc (unat len) allocated) w)))
      | GATT_APP_BUFFER_TRANSMITTED_EVT free_fn \<Rightarrow>
          Inr (WICED_BT_GATT_SUCCESS, (if free_fn = Release_free then emit Free w else w))
      | GATT_OTHER_EVT \<Rightarrow> Inr (WICED_BT_GATT_SUCCESS, w))"

section \<open>The battery service task (battery\_service\_task.cpp)\<close>

definition BATTERY_LEVEL_CHANGE :: uint8_t where
  "BATTERY_LEVEL_CHANGE = 2"

definition GATT_CLIENT_CONFIG_NOTIFICATION :: uint8_t where
  "GATT_CLIENT_CONFIG_NOTIFICATION = 1"

text \<open>
  The new value of \<^verbatim>\<open>app_bas_battery_level[0]\<close>: the difference is computed on \<^verbatim>\<open>int\<close>
  and stored into a \<^verbatim>\<open>uint8_t\<close>, which keeps it modulo 256.
\<close>

definition battery_service_update_percentage :: "uint8_t \<Rightarrow> uint8_t \<Rightarrow> uint8_t" where
  "battery_service_update_percentage level decrease_interval =
     (if level = 0 then 100 else word_of_int (uint level - uint decrease_interval))"

text \<open>
  One round of the loop of \<^verbatim>\<open>battery_service_task\<close> after the timer has woken it: the
  connection id, the first byte of the client configuration and the battery level go
  in; the level and the notification sent, if any, come out. The array
  \<^verbatim>\<open>app_bas_battery_level\<close> holds the one byte of the Battery Level characteristic.
\<close>

definition battery_service_task_round ::
  "uint16_t \<Rightarrow> uint8_t \<Rightarrow> uint16_t \<Rightarrow> uint8_t \<Rightarrow> uint8_t \<times> effect option" where
  "battery_service_task_round connection_id client_char_config value_handle level =
     (if connection_id = 0 then (level, None)
      else if client_char_config AND GATT_CLIENT_CONFIG_NOTIFICATION = 0 then (level, None)
      else
        (let level' = battery_service_update_percentage level BATTERY_LEVEL_CHANGE
         in (level', Some (Send_notification connection_id value_handle [level']))))"

section \<open>Reference encoders of the stack\<close>


definition stack_put_read_multi_rsp_in_stream ::
  "wiced_bt_gatt_opcode_e \<Rightarrow> int \<Rightarrow> uint16_t \<Rightarrow> uint16_t \<Rightarrow> uint8_t list option \<Rightarrow> uint8_t list" where
  "stack_put_read_multi_rsp_in_stream opc stream_len attr_handle attr_len p_attr =
     (let val = take (unat attr_len) (deref p_attr);
          enc = (if opc = GATT_REQ_READ_MULTI_VAR_LENGTH
                 then [ucast attr_len, ucast (drop_bit 8 attr_len)] @ val else val)
      in if int (length enc) \<le> stream_len then enc else [])"

text \<open>
  Modelled from the spec: the read-by-type encoder of the stack, which is not part of
  these sources. The specification has the read-by-type handler stop at the first
  candidate whose encoded (handle, value) pair does not fit in the remaining response
  capacity; this encoder puts the pair, or nothing when it does not fit or when its
  length differs from the pair length already set.
\<close>

definition stack_put_read_by_type_rsp_in_stream ::
  "int \<Rightarrow> uint8_t \<Rightarrow> uint16_t \<Rightarrow> uint16_t \<Rightarrow> uint8_t list option \<Rightarrow> uint8_t list \<times> uint8_t" where
  "stack_put_read_by_type_rsp_in_stream stream_len pair_len attr_handle attr_len p_attr =
     (let enc = [ucast attr_handle, ucast (drop_bit 8 attr_handle)]
                 @ take (unat attr_len) (deref p_attr)
      in if int (length enc) \<le> stream_len \<and> (pair_len = 0 \<or> unat pair_len = length enc)
         then (enc, of_nat (length enc)) else ([], pair_len))"

text \<open>
  The contract of the encoders that the handlers rely on: an encoder fills no more
  bytes than the stream it is given can hold.
\<close>

definition fills_within_stream :: "env \<Rightarrow> bool" where
  "fills_within_stream env =
     (\<forall>stream_len pair_len h l d.
        int (length (fst (wiced_bt_gatt_put_read_by_type_rsp_in_stream env
                            stream_len pair_len h l d))) \<le> max 0 stream_len)"

definition multi_fills_within_stream :: "env \<Rightarrow> bool" where
  "multi_fills_within_stream env =
     (\<forall>opc stream_len h l d.
        int (length (wiced_bt_gatt_put_read_multi_rsp_in_stream env opc stream_len h l d))
          \<le> max 0 stream_len)"



text \<open>
  A stack over a type index: \<open>typed\<close> lists the handles of the stack's database that
  carry the type asked for, in ascending order. Every other collaborator succeeds.
\<close>

definition reference_env :: "uint16_t list \<Rightarrow> bool \<Rightarrow> wiced_result_t \<Rightarrow> env" where
  "reference_env typed allocates advertising =
     \<lparr>malloc_succeeds = (\<lambda>n. allocates),
      wiced_bt_gatt_find_handle_by_type =
        (\<lambda>s e u. case filter (\<lambda>h. s \<le> h \<and> h \<le> e) typed of [] \<Rightarrow> 0 | h # _ \<Rightarrow> h),
      wiced_bt_gatt_put_read_by_type_rsp_in_stream = stack_put_read_by_type_rsp_in_stream,
      wiced_bt_gatt_put_read_multi_rsp_in_stream = stack_put_read_multi_rsp_in_stream,
      wiced_bt_gatt_server_send_read_handle_rsp = (\<lambda>c opc n. WICED_BT_GATT_SUCCESS),
      wiced_bt_gatt_server_send_mtu_rsp = (\<lambda>c r l. WICED_BT_GATT_SUCCESS),
      wiced_bt_start_advertisements = advertising,
      front_led_start = CY_RSLT_SUCCESS,
      cy_ota_agent_start = (CY_RSLT_SUCCESS, Some 1),
      cy_ota_ble_download_prepare = CY_RSLT_SUCCESS,
      cy_ota_ble_download = CY_RSLT_SUCCESS,
      cy_ota_ble_download_verify = CY_RSLT_SUCCESS,
      cy_ota_ble_download_abort = CY_RSLT_SUCCESS,
      cy_ota_ble_download_write = CY_RSLT_SUCCESS,
      cy_ota_get_state = (\<lambda>c. case c of None \<Rightarrow> None | Some _ \<Rightarrow> Some CY_OTA_STATE_AGENT_WAITING),
      cy_ota_agent_stop = (\<lambda>c. None),
      ble_max_rx_pdu_size = 512,
      HDLD_OTA_FW_UPGRADE_SERVICE_OTA_UPGRADE_CONTROL_POINT_CLIENT_CHAR_CONFIG = 0x23,
      HDLC_OTA_FW_UPGRADE_SERVICE_OTA_UPGRADE_CONTROL_POINT_VALUE = 0x22,
      HDLC_OTA_FW_UPGRADE_SERVICE_OTA_UPGRADE_DATA_VALUE = 0x25,
      CY_OTA_UPGRADE_COMMAND_PREPARE_DOWNLOAD = 1,
      CY_OTA_UPGRADE_COMMAND_DOWNLOAD = 2,
      CY_OTA_UPGRADE_COMMAND_VERIFY = 3,
      CY_OTA_UPGRADE_COMMAND_ABORT = 7\<rparr>"

text \<open>A table of two rows and a context, for concrete runs.\<close>

definition example_tbl :: "gatt_db_lookup_table_t list" where
  "example_tbl =
     [\<lparr>handle = 1, max_len = 1, cur_len = 1, p_data = Some [100]\<rparr>,
      \<lparr>handle = 2, max_len = 4, cur_len = 4, p_data = Some [9, 8, 7, 6]\<rparr>]"

definition example_world :: "uint32_t \<Rightarrow> uint16_t \<Rightarrow> state \<Rightarrow> world" where
  "example_world tag connection s =
     \<lparr>app_gatt_db_ext_attr_tbl = example_tbl,
      ble_context_object =
        \<lparr>m_tag = tag, m_connection_id = connection, m_peer_address = [1, 2, 3, 4, 5, 6],
         m_connection_state = s, m_ota_context = None,
         m_connection_type = CY_OTA_CONNECTION_UNKNOWN, m_reboot_at_end = False,
         m_ota_config_descriptor = 0\<rparr>,
      trace = []\<rparr>"

text \<open>A request whose union members all read as something, for concrete runs.\<close>

definition example_data :: wiced_bt_gatt_request_data_t where
  "example_data =
     \<lparr>read_req = \<lparr>handle_rd = 2, offset = 1\<rparr>,
      read_by_type = \<lparr>s_handle = 1, e_handle = 0xFFFF, uuid = [0x19, 0x2A]\<rparr>,
      read_multiple_req =
        \<lparr>num_handles = 3, p_handle_stream = (\<lambda>i. if i = 0 then 1 else if i = 1 then 2 else 9)\<rparr>,
      write_req = \<lparr>handle_wr = 0x22, p_val = Some [1], val_len = 1\<rparr>,
      remote_mtu = 247\<rparr>"

definition example_request ::
  "wiced_bt_gatt_opcode_e \<Rightarrow> uint16_t \<Rightarrow> wiced_bt_gatt_attribute_request_t" where
  "example_request opc len = \<lparr>conn_id = 1, opcode = opc, len_requested = len, data = example_data\<rparr>"

section \<open>Properties of the attribute store\<close>

lemma set_value_loop_error_unchanged:
  "set_value_loop tbl h v len = (st, tbl') \<Longrightarrow> st \<noteq> WICED_BT_GATT_SUCCESS \<Longrightarrow> tbl' = tbl"
  by (induction tbl arbitrary: st tbl')
     (auto simp: Let_def split: if_splits prod.splits option.splits)

lemma written_buffer:
  assumes "length buf = unat m" and "len \<le> m" and "unat len \<le> length src"
  defines "out \<equiv> (if m > len
                   then memset (memcpy buf src (unat len)) (unat len) 0 (unat (m - len))
                   else memcpy buf src (unat len))"
  shows "length out = unat m"
    and "take (unat len) out = take (unat len) src"
    and "\<forall>i. unat len \<le> i \<and> i < unat m \<longrightarrow> out ! i = 0"
  using assms
  by (auto simp: memcpy_def memset_def word_le_nat_alt word_less_nat_alt unat_sub
      nth_append min_def)

lemma set_value_loop_success:
  assumes "set_value_loop tbl h v len = (WICED_BT_GATT_SUCCESS, tbl')"
    and "buffers_sized tbl"
    and "unat len \<le> length (deref v)"
  shows "\<exists>e' buf. ble_gatt_db_find_by_handle tbl' h = Some e' \<and> cur_len e' = len
           \<and> p_data e' = Some buf \<and> length buf = unat (max_len e')
           \<and> take (unat len) buf = take (unat len) (deref v)
           \<and> (\<forall>i. unat len \<le> i \<and> i < unat (max_len e') \<longrightarrow> buf ! i = 0)"
  using assms
proof (induction tbl arbitrary: tbl')
  case Nil
  then show ?case by simp
next
  case (Cons entry rest)
  show ?case
  proof (cases "handle entry = h")
    case False
    with Cons.prems obtain rest' where
      r: "set_value_loop rest h v len = (WICED_BT_GATT_SUCCESS, rest')" and
      t: "tbl' = entry # rest'"
      by (auto split: prod.splits)
    from Cons.prems have "buffers_sized rest" by (simp add: buffers_sized_def)
    from Cons.IH [OF r this Cons.prems(3)] False t show ?thesis by simp
  next
    case True
    with Cons.prems obtain buf where
      le: "len \<le> max_len entry" and b: "p_data entry = Some buf" and
      t: "tbl' = entry\<lparr>cur_len := len, p_data := Some
            (if max_len entry > len
             then memset (memcpy buf (deref v) (unat len)) (unat len) 0
                    (unat (max_len entry - len))
             else memcpy buf (deref v) (unat len))\<rparr> # rest"
      by (auto simp: Let_def not_less split: if_splits option.splits)
    from Cons.prems b have "length buf = unat (max_len entry)"
      by (simp add: buffers_sized_def)
    from written_buffer [OF this le Cons.prems(3)] True t show ?thesis
      by simp
  qed
qed

text \<open>
  C1. After a successful \<^verbatim>\<open>ble_gatt_db_set_value(handle, bytes, length)\<close> the row that
  the handle finds has \<^verbatim>\<open>cur_len = length\<close>, its buffer starts with the \<open>length\<close> bytes
  written, and every byte of the buffer from \<open>length\<close> up to \<^verbatim>\<open>max_len\<close> is zero. The
  buffers have the capacity their rows declare, and a non-null \<^verbatim>\<open>value\<close> points to at
  least \<open>length\<close> bytes.
\<close>

theorem ble_gatt_db_set_value_success:
  assumes "ble_gatt_db_set_value tbl attr_handle val len = (WICED_BT_GATT_SUCCESS, tbl')"
    and "buffers_sized tbl"
    and "val \<noteq> None \<longrightarrow> unat len \<le> length (deref val)"
  shows "\<exists>e' buf. ble_gatt_db_find_by_handle tbl' attr_handle = Some e'
           \<and> cur_len e' = len
           \<and> p_data e' = Some buf \<and> length buf = unat (max_len e')
           \<and> take (unat len) buf = take (unat len) (deref val)
           \<and> (\<forall>i. unat len \<le> i \<and> i < unat (max_len e') \<longrightarrow> buf ! i = 0)"
proof -
  from assms(1) have guard: "\<not> (len > 0 \<and> val = None)"
    and loop: "set_value_loop tbl attr_handle val len = (WICED_BT_GATT_SUCCESS, tbl')"
    by (auto simp: ble_gatt_db_set_value_def split: if_splits)
  have "unat len \<le> length (deref val)"
  proof (cases val)
    case None
    with guard have "len = 0" by (simp add: word_greater_zero_iff)
    then show ?thesis by simp
  next
    case (Some bs)
    with assms(3) show ?thesis by simp
  qed
  from set_value_loop_success [OF loop assms(2) this] show ?thesis .
qed

theorem ble_gatt_db_set_value_success_witness:
  "ble_gatt_db_set_value
     [\<lparr>handle = 1, max_len = 1, cur_len = 1, p_data = Some [100]\<rparr>,
      \<lparr>handle = 2, max_len = 4, cur_len = 4, p_data = Some [9, 9, 9, 9]\<rparr>]
     2 (Some [7, 8]) 2
   = (WICED_BT_GATT_SUCCESS,
      [\<lparr>handle = 1, max_len = 1, cur_len = 1, p_data = Some [100]\<rparr>,
       \<lparr>handle = 2, max_len = 4, cur_len = 2, p_data = Some [7, 8, 0, 0]\<rparr>])
   \<and> (\<exists>e' buf. ble_gatt_db_find_by_handle
         [\<lparr>handle = 1, max_len = 1, cur_len = 1, p_data = Some [100]\<rparr>,
          \<lparr>handle = 2, max_len = 4, cur_len = 2, p_data = Some [7, 8, 0, 0]\<rparr>] 2 = Some e'
           \<and> cur_len e' = 2
           \<and> p_data e' = Some buf \<and> length buf = unat (max_len e')
           \<and> take (unat (2 :: uint16_t)) buf = take (unat (2 :: uint16_t)) (deref (Some [7, 8]))
           \<and> (\<forall>i. unat (2 :: uint16_t) \<le> i \<and> i < unat (max_len e') \<longrightarrow> buf ! i = 0))"
proof -
  let ?tbl = "[\<lparr>handle = 1, max_len = 1, cur_len = 1, p_data = Some [100]\<rparr>,
      \<lparr>handle = 2, max_len = 4, cur_len = 4, p_data = Some [9, 9, 9, 9 :: uint8_t]\<rparr>]"
  have run: "ble_gatt_db_set_value ?tbl 2 (Some [7, 8]) 2
    = (WICED_BT_GATT_SUCCESS,
      [\<lparr>handle = 1, max_len = 1, cur_len = 1, p_data = Some [100]\<rparr>,
       \<lparr>handle = 2, max_len = 4, cur_len = 2, p_data = Some [7, 8, 0, 0]\<rparr>])"
    by code_simp
  have sized: "buffers_sized ?tbl" by (simp add: buffers_sized_def)
  have src: "Some [7, 8 :: uint8_t] \<noteq> None \<longrightarrow> unat (2 :: uint16_t) \<le> length (deref (Some [7, 8 :: uint8_t]))"
    by (simp add: deref_def)
  from ble_gatt_db_set_value_success [OF run sized src] run show ?thesis by blast
qed

text \<open>
  C10. A call of \<^verbatim>\<open>ble_gatt_db_set_value\<close> that returns a status other than success
  leaves the whole table as it was: every row keeps its \<^verbatim>\<open>cur_len\<close> and its buffer.
\<close>

theorem ble_gatt_db_set_value_error_atomic:
  assumes "ble_gatt_db_set_value tbl attr_handle val len = (status, tbl')"
    and "status \<noteq> WICED_BT_GATT_SUCCESS"
  shows "tbl' = tbl"
  using assms set_value_loop_error_unchanged [of tbl attr_handle val len status tbl']
  by (auto simp: ble_gatt_db_set_value_def split: if_splits)

theorem ble_gatt_db_set_value_error_atomic_witness:
  "ble_gatt_db_set_value
     [\<lparr>handle = 1, max_len = 1, cur_len = 1, p_data = Some [100]\<rparr>,
      \<lparr>handle = 2, max_len = 4, cur_len = 4, p_data = Some [9, 9, 9, 9]\<rparr>]
     2 (Some [1, 2, 3, 4, 5]) 5
   = (WICED_BT_GATT_INVALID_ATTR_LEN,
      [\<lparr>handle = 1, max_len = 1, cur_len = 1, p_data = Some [100]\<rparr>,
       \<lparr>handle = 2, max_len = 4, cur_len = 4, p_data = Some [9, 9, 9, 9]\<rparr>])"
proof -
  let ?tbl = "[\<lparr>handle = 1, max_len = 1, cur_len = 1, p_data = Some [100]\<rparr>,
      \<lparr>handle = 2, max_len = 4, cur_len = 4, p_data = Some [9, 9, 9, 9 :: uint8_t]\<rparr>]"
  obtain status tbl' where
    run: "ble_gatt_db_set_value ?tbl 2 (Some [1, 2, 3, 4, 5]) 5 = (status, tbl')"
    by (cases "ble_gatt_db_set_value ?tbl 2 (Some [1, 2, 3, 4, 5]) 5")
  have st: "status = WICED_BT_GATT_INVALID_ATTR_LEN"
    using run by (simp add: ble_gatt_db_set_value_def)
  then have "status \<noteq> WICED_BT_GATT_SUCCESS" by simp
  from ble_gatt_db_set_value_error_atomic [OF run this] run st show ?thesis by simp
qed

section \<open>Properties of the battery level\<close>

lemma battery_sub:
  "level \<noteq> 0 \<Longrightarrow> battery_service_update_percentage level BATTERY_LEVEL_CHANGE = level - 2"
  by (simp add: battery_service_update_percentage_def BATTERY_LEVEL_CHANGE_def)

lemma battery_step_bound:
  assumes "level \<le> 100" and "level \<noteq> 1"
  shows "battery_service_update_percentage level BATTERY_LEVEL_CHANGE \<le> 100"
proof (cases "level = 0")
  case True
  then show ?thesis by (simp add: battery_service_update_percentage_def)
next
  case False
  have "level - 2 \<le> 100" using assms False by unat_arith
  then show ?thesis using battery_sub [OF False] by simp
qed

lemma battery_even_step:
  assumes "level \<le> 100" and "even (unat level)"
  shows "battery_service_update_percentage level BATTERY_LEVEL_CHANGE \<le> 100
       \<and> even (unat (battery_service_update_percentage level BATTERY_LEVEL_CHANGE))"
proof (cases "level = 0")
  case True
  then show ?thesis by (simp add: battery_service_update_percentage_def)
next
  case False
  have ne: "unat level \<noteq> 0" using False by (simp add: unat_eq_0)
  with assms(2) have ge: "2 \<le> unat level" by (cases "unat level = 1") auto
  then have "(2 :: uint8_t) \<le> level" by (simp add: word_le_nat_alt)
  then have u: "unat (level - 2) = unat level - 2" by (simp add: unat_sub)
  from assms(1) have "unat level \<le> 100" by (simp add: word_le_nat_alt)
  with u ge assms(2) have "unat (level - 2) \<le> 100 \<and> even (unat (level - 2))" by simp
  then show ?thesis using False by (simp add: battery_sub word_le_nat_alt)
qed

lemma battery_even_run:
  assumes "level \<le> 100" and "even (unat level)"
  shows "((\<lambda>v. battery_service_update_percentage v BATTERY_LEVEL_CHANGE) ^^ n) level \<le> 100
       \<and> even (unat (((\<lambda>v. battery_service_update_percentage v BATTERY_LEVEL_CHANGE) ^^ n) level))"
proof (induction n)
  case 0
  with assms show ?case by simp
next
  case (Suc n)
  from battery_even_step [OF Suc.IH [THEN conjunct1] Suc.IH [THEN conjunct2]]
  show ?case by simp
qed

text \<open>
  C8, as the code has it. From 0 the battery level becomes 100; from any other value
  it becomes the value minus 2 in 8-bit arithmetic; from a value of at most 100 other
  than 1 the new value is at most 100; and from an even value of at most 100 every
  later value is even and at most 100, however many updates follow. A connected task
  round with notifications enabled stores and notifies exactly this new value.
\<close>

theorem battery_service_update_percentage_wraps:
  "battery_service_update_percentage 0 BATTERY_LEVEL_CHANGE = 100
   \<and> (level \<noteq> 0 \<longrightarrow>
        battery_service_update_percentage level BATTERY_LEVEL_CHANGE = level - 2)
   \<and> (level \<le> 100 \<and> level \<noteq> 1 \<longrightarrow>
        battery_service_update_percentage level BATTERY_LEVEL_CHANGE \<le> 100)
   \<and> (level \<le> 100 \<and> even (unat level) \<longrightarrow>
        (\<forall>n. ((\<lambda>v. battery_service_update_percentage v BATTERY_LEVEL_CHANGE) ^^ n) level \<le> 100
           \<and> even (unat (((\<lambda>v. battery_service_update_percentage v BATTERY_LEVEL_CHANGE) ^^ n)
                            level))))
   \<and> (connection_id \<noteq> 0 \<and> client_char_config AND GATT_CLIENT_CONFIG_NOTIFICATION \<noteq> 0 \<longrightarrow>
        battery_service_task_round connection_id client_char_config value_handle level
          = (battery_service_update_percentage level BATTERY_LEVEL_CHANGE,
             Some (Send_notification connection_id value_handle
                     [battery_service_update_percentage level BATTERY_LEVEL_CHANGE])))"
proof (intro conjI impI allI)
  show "battery_service_update_percentage 0 BATTERY_LEVEL_CHANGE = 100"
    by (simp add: battery_service_update_percentage_def)
next
  assume "level \<noteq> 0"
  then show "battery_service_update_percentage level BATTERY_LEVEL_CHANGE = level - 2"
    by (rule battery_sub)
next
  assume "level \<le> 100 \<and> level \<noteq> 1"
  then show "battery_service_update_percentage level BATTERY_LEVEL_CHANGE \<le> 100"
    using battery_step_bound by blast
next
  fix n
  assume "level \<le> 100 \<and> even (unat level)"
  then show "((\<lambda>v. battery_service_update_percentage v BATTERY_LEVEL_CHANGE) ^^ n) level \<le> 100"
    using battery_even_run by blast
next
  fix n
  assume "level \<le> 100 \<and> even (unat level)"
  then show "even (unat (((\<lambda>v. battery_service_update_percentage v BATTERY_LEVEL_CHANGE) ^^ n)
                            level))"
    using battery_even_run by blast
next
  assume "connection_id \<noteq> 0 \<and> client_char_config AND GATT_CLIENT_CONFIG_NOTIFICATION \<noteq> 0"
  then show "battery_service_task_round connection_id client_char_config value_handle level
          = (battery_service_update_percentage level BATTERY_LEVEL_CHANGE,
             Some (Send_notification connection_id value_handle
                     [battery_service_update_percentage level BATTERY_LEVEL_CHANGE]))"
    by (simp add: battery_service_task_round_def Let_def)
qed

theorem battery_service_update_percentage_wraps_witness:
  "(4 :: uint8_t) \<noteq> 0 \<and> (4 :: uint8_t) \<le> 100 \<and> (4 :: uint8_t) \<noteq> 1 \<and> even (unat (4 :: uint8_t))
   \<and> (1 :: uint16_t) \<noteq> 0 \<and> (1 :: uint8_t) AND GATT_CLIENT_CONFIG_NOTIFICATION \<noteq> 0
   \<and> battery_service_update_percentage 4 BATTERY_LEVEL_CHANGE = 2
   \<and> battery_service_update_percentage 4 BATTERY_LEVEL_CHANGE \<le> 100
   \<and> ((\<lambda>v. battery_service_update_percentage v BATTERY_LEVEL_CHANGE) ^^ 3) 4 \<le> 100
   \<and> battery_service_task_round 1 1 3 4 = (2, Some (Send_notification 1 3 [2]))"
proof -
  have h: "(4 :: uint8_t) \<noteq> 0" "(4 :: uint8_t) \<le> 100 \<and> (4 :: uint8_t) \<noteq> 1"
    "(4 :: uint8_t) \<le> 100 \<and> even (unat (4 :: uint8_t))"
    "(1 :: uint16_t) \<noteq> 0 \<and> (1 :: uint8_t) AND GATT_CLIENT_CONFIG_NOTIFICATION \<noteq> 0"
    by (simp_all add: GATT_CLIENT_CONFIG_NOTIFICATION_def)
  note t = battery_service_update_percentage_wraps [of 4 1 1 3]
  from t h(1) have a: "battery_service_update_percentage 4 BATTERY_LEVEL_CHANGE = 2" by simp
  from t h(2) have b: "battery_service_update_percentage 4 BATTERY_LEVEL_CHANGE \<le> 100" by blast
  from t h(3) have c:
    "((\<lambda>v. battery_service_update_percentage v BATTERY_LEVEL_CHANGE) ^^ 3) 4 \<le> 100" by blast
  from t h(4) a have d: "battery_service_task_round 1 1 3 4 = (2, Some (Send_notification 1 3 [2]))"
    by simp
  from h a b c d show ?thesis by simp
qed

theorem battery_level_from_one_counterexample:
  "(1 :: uint8_t) \<le> 100
   \<and> battery_service_update_percentage 1 BATTERY_LEVEL_CHANGE = 255
   \<and> \<not> battery_service_update_percentage 1 BATTERY_LEVEL_CHANGE \<le> 100"
proof -
  have v: "battery_service_update_percentage 1 BATTERY_LEVEL_CHANGE = 255"
    by (simp add: battery_service_update_percentage_def BATTERY_LEVEL_CHANGE_def)
  have "\<not> (255 :: uint8_t) \<le> 100" by (simp add: word_le_nat_alt)
  with v show ?thesis by (simp only: simp_thms) simp
qed

section \<open>Properties of the single-attribute read\<close>

lemma MIN_of_nat:
  fixes l a b :: nat
  assumes "b < a"
  shows "0 \<le> MIN_of (int l) (int a - int b)"
    and "MIN_of (int l) (int a - int b) \<le> int l"
    and "nat (MIN_of (int l) (int a - int b)) = min l (a - b)"
  using assms unfolding MIN_of_def by auto

lemma uint_word_of_int_16:
  fixes k :: int
  assumes "0 \<le> k" and "k < 2 ^ 16"
  shows "uint (word_of_int k :: uint16_t) = k"
  using assms by (simp add: uint_word_of_int_eq take_bit_int_eq_self)

lemma length_to_send_unat:
  fixes L c off :: uint16_t
  assumes "off < c"
  shows "unat (word_of_int (MIN_of (uint L) (uint c - uint off)) :: uint16_t)
           = min (unat L) (unat c - unat off)"
proof -
  let ?k = "MIN_of (int (unat L)) (int (unat c) - int (unat off))"
  from assms have lt: "unat off < unat c" by (simp add: word_less_nat_alt)
  have l: "int (unat L) < 2 ^ 16" using uint_lt2p [of L] by simp
  have k0: "0 \<le> ?k" by (rule MIN_of_nat(1) [OF lt])
  have k1: "?k < 2 ^ 16" using MIN_of_nat(2) [OF lt, of "unat L"] l by linarith
  have kn: "nat ?k = min (unat L) (unat c - unat off)" by (rule MIN_of_nat(3) [OF lt])
  have "uint (word_of_int ?k :: uint16_t) = ?k"
    by (rule uint_word_of_int_16 [OF k0 k1])
  then have "unat (word_of_int ?k :: uint16_t) = nat ?k"
    by (simp only: unat_eq_nat_uint)
  with kn show ?thesis by (simp only: uint_nat)
qed

lemma read_handler_invalid_offset:
  assumes "ble_gatt_db_find_by_handle (app_gatt_db_ext_attr_tbl w) (handle_rd r) = Some attribute"
    and "offset r \<ge> cur_len attribute"
  shows "ble_gatt_request_read_handler env w c opc r len
           = Inr ((WICED_BT_GATT_INVALID_OFFSET, handle_rd r), w)"
  using assms by (simp add: ble_gatt_request_read_handler_def)

lemma read_handler_sends:
  assumes "ble_gatt_db_find_by_handle (app_gatt_db_ext_attr_tbl w) (handle_rd r) = Some attribute"
    and "offset r < cur_len attribute"
  shows "ble_gatt_request_read_handler env w c opc r len
           = Inr ((wiced_bt_gatt_server_send_read_handle_rsp env c opc
                     (word_of_int (MIN_of (uint len) (uint (cur_len attribute) - uint (offset r)))),
                   handle_rd r),
                  emit (Send_read_handle_rsp c opc
                          (word_of_int (MIN_of (uint len) (uint (cur_len attribute) - uint (offset r))))
                          (drop (unat (offset r)) (deref (p_data attribute))) Release_none) w)"
proof -
  from assms(2) have "\<not> cur_len attribute \<le> offset r" by simp
  with assms(1) show ?thesis by (simp add: ble_gatt_request_read_handler_def Let_def)
qed

text \<open>
  C2. A Read or Read-Blob request for a handle that the table holds: with an offset at
  or past \<^verbatim>\<open>cur_len\<close> (so with any offset when \<^verbatim>\<open>cur_len\<close> is 0) the dispatcher returns
  \<^verbatim>\<open>WICED_BT_GATT_INVALID_OFFSET\<close> and sends nothing; otherwise it sends one response
  whose length is the smaller of the requested length and \<^verbatim>\<open>cur_len - offset\<close>, from the
  attribute's data starting at the offset.
\<close>

theorem read_handler_offset_and_length:
  assumes "opcode rq = GATT_REQ_READ \<or> opcode rq = GATT_REQ_READ_BLOB"
    and "ble_gatt_db_find_by_handle (app_gatt_db_ext_attr_tbl w)
           (handle_rd (read_req (data rq))) = Some attribute"
  shows "(offset (read_req (data rq)) \<ge> cur_len attribute \<longrightarrow>
            ble_gatt_event_handler env w rq eh
              = Inr ((WICED_BT_GATT_INVALID_OFFSET, handle_rd (read_req (data rq))), w))
       \<and> (cur_len attribute = 0 \<longrightarrow>
            ble_gatt_event_handler env w rq eh
              = Inr ((WICED_BT_GATT_INVALID_OFFSET, handle_rd (read_req (data rq))), w))
       \<and> (offset (read_req (data rq)) < cur_len attribute \<longrightarrow>
            (\<exists>n. ble_gatt_event_handler env w rq eh
                    = Inr ((wiced_bt_gatt_server_send_read_handle_rsp env (conn_id rq) (opcode rq) n,
                            handle_rd (read_req (data rq))),
                           emit (Send_read_handle_rsp (conn_id rq) (opcode rq) n
                                   (drop (unat (offset (read_req (data rq))))
                                      (deref (p_data attribute))) Release_none) w)
                \<and> unat n = min (unat (len_requested rq))
                             (unat (cur_len attribute) - unat (offset (read_req (data rq))))))"
proof -
  let ?r = "read_req (data rq)"
  have route: "ble_gatt_event_handler env w rq eh
     = ble_gatt_request_read_handler env w (conn_id rq) (opcode rq) ?r (len_requested rq)"
    using assms(1) by (auto simp: ble_gatt_event_handler_def Let_def)
  have a: "offset ?r \<ge> cur_len attribute \<longrightarrow>
            ble_gatt_event_handler env w rq eh
              = Inr ((WICED_BT_GATT_INVALID_OFFSET, handle_rd ?r), w)"
    using read_handler_invalid_offset [OF assms(2)] route by simp
  have b: "cur_len attribute = 0 \<longrightarrow>
            ble_gatt_event_handler env w rq eh
              = Inr ((WICED_BT_GATT_INVALID_OFFSET, handle_rd ?r), w)"
    using a by simp
  have c: "offset ?r < cur_len attribute \<longrightarrow>
            (\<exists>n. ble_gatt_event_handler env w rq eh
                    = Inr ((wiced_bt_gatt_server_send_read_handle_rsp env (conn_id rq) (opcode rq) n,
                            handle_rd ?r),
                           emit (Send_read_handle_rsp (conn_id rq) (opcode rq) n
                                   (drop (unat (offset ?r)) (deref (p_data attribute)))
                                   Release_none) w)
                \<and> unat n = min (unat (len_requested rq))
                             (unat (cur_len attribute) - unat (offset ?r)))"
  proof
    assume lt: "offset ?r < cur_len attribute"
    from read_handler_sends [OF assms(2) lt] route length_to_send_unat [OF lt]
    show "\<exists>n. ble_gatt_event_handler env w rq eh
                    = Inr ((wiced_bt_gatt_server_send_read_handle_rsp env (conn_id rq) (opcode rq) n,
                            handle_rd ?r),
                           emit (Send_read_handle_rsp (conn_id rq) (opcode rq) n
                                   (drop (unat (offset ?r)) (deref (p_data attribute)))
                                   Release_none) w)
                \<and> unat n = min (unat (len_requested rq))
                             (unat (cur_len attribute) - unat (offset ?r))"
      by metis
  qed
  from a b c show ?thesis by blast
qed

theorem read_handler_offset_and_length_witness:
  "(opcode (example_request GATT_REQ_READ 2) = GATT_REQ_READ
      \<or> opcode (example_request GATT_REQ_READ 2) = GATT_REQ_READ_BLOB)
   \<and> ble_gatt_db_find_by_handle
        (app_gatt_db_ext_attr_tbl (example_world BLE_CONTEXT_TAG_VALID 1 connected))
        (handle_rd (read_req (data (example_request GATT_REQ_READ 2))))
      = Some \<lparr>handle = 2, max_len = 4, cur_len = 4, p_data = Some [9, 8, 7, 6]\<rparr>
   \<and> offset (read_req (data (example_request GATT_REQ_READ 2))) < 4
   \<and> (\<exists>n. ble_gatt_event_handler (reference_env [] True WICED_BT_SUCCESS)
             (example_world BLE_CONTEXT_TAG_VALID 1 connected) (example_request GATT_REQ_READ 2) 0
           = Inr ((WICED_BT_GATT_SUCCESS, 2),
                  emit (Send_read_handle_rsp 1 GATT_REQ_READ n [8, 7, 6] Release_none)
                    (example_world BLE_CONTEXT_TAG_VALID 1 connected))
        \<and> unat n = 2)"
proof -
  let ?rq = "example_request GATT_REQ_READ 2"
  let ?w = "example_world BLE_CONTEXT_TAG_VALID 1 connected"
  let ?a = "\<lparr>handle = 2, max_len = 4, cur_len = 4, p_data = Some [9, 8, 7, 6 :: uint8_t]\<rparr>"
  have h1: "opcode ?rq = GATT_REQ_READ \<or> opcode ?rq = GATT_REQ_READ_BLOB"
    by (simp add: example_request_def)
  have h2: "ble_gatt_db_find_by_handle (app_gatt_db_ext_attr_tbl ?w)
              (handle_rd (read_req (data ?rq))) = Some ?a"
    by (simp add: example_request_def example_data_def example_world_def example_tbl_def)
  have h3: "offset (read_req (data ?rq)) < cur_len ?a"
    by (simp add: example_request_def example_data_def)
  from read_handler_offset_and_length [OF h1 h2, of "reference_env [] True WICED_BT_SUCCESS" 0] h3
  obtain n where
    run: "ble_gatt_event_handler (reference_env [] True WICED_BT_SUCCESS) ?w ?rq 0
            = Inr ((wiced_bt_gatt_server_send_read_handle_rsp
                      (reference_env [] True WICED_BT_SUCCESS) (conn_id ?rq) (opcode ?rq) n,
                    handle_rd (read_req (data ?rq))),
                   emit (Send_read_handle_rsp (conn_id ?rq) (opcode ?rq) n
                           (drop (unat (offset (read_req (data ?rq)))) (deref (p_data ?a)))
                           Release_none) ?w)"
    and len: "unat n = min (unat (len_requested ?rq))
                          (unat (cur_len ?a) - unat (offset (read_req (data ?rq))))"
    by blast
  have "ble_gatt_event_handler (reference_env [] True WICED_BT_SUCCESS) ?w ?rq 0
           = Inr ((WICED_BT_GATT_SUCCESS, 2),
                  emit (Send_read_handle_rsp 1 GATT_REQ_READ n [8, 7, 6] Release_none) ?w)"
    using run by (simp add: example_request_def example_data_def reference_env_def deref_def)
  moreover have "unat n = 2"
    using len by (simp add: example_request_def example_data_def)
  ultimately show ?thesis using h1 h2 h3 by auto
qed

section \<open>Properties of the connection events\<close>

text \<open>
  C7, on the code. A disconnect event (a connection status whose \<^verbatim>\<open>connected\<close> flag is
  false) clears \<^verbatim>\<open>m_connection_id\<close>, asks the stack once to start advertising, sets the
  state to \<^verbatim>\<open>disconnected_and_advertising\<close>, stops the LED, sets it to blinking and
  starts it, and returns success. It does so whatever the stack answers: when the
  stack rejects the request, the \<^verbatim>\<open>CY_ASSERT(false)\<close> that follows expands to nothing, so
  no assertion ends the handler, the state still says that the device advertises, and
  the status is still success. The stack callback does the same.
\<close>

theorem disconnect_rejected_restart_not_fatal:
  "connection_event_handler env w (Some (cs\<lparr>connected_cs := False\<rparr>))
     = Inr (WICED_BT_GATT_SUCCESS,
            w\<lparr>ble_context_object := (ble_context_object w)
                 \<lparr>m_connection_id := 0, m_connection_state := disconnected_and_advertising\<rparr>,
              trace := trace w @ [Start_advertisements BTM_BLE_ADVERT_UNDIRECTED_HIGH,
                         Led_stop, Led_set_blink_rate duty_blinking, Led_start]\<rparr>)
   \<and> ble_gatt_event_callback env w (GATT_CONNECTION_STATUS_EVT (cs\<lparr>connected_cs := False\<rparr>))
       = connection_event_handler env w (Some (cs\<lparr>connected_cs := False\<rparr>))
   \<and> wiced_bt_start_advertisements (reference_env [] True WICED_BT_ERROR) \<noteq> WICED_BT_SUCCESS
   \<and> connection_event_handler (reference_env [] True WICED_BT_ERROR)
        (example_world BLE_CONTEXT_TAG_VALID 1 connected)
        (Some \<lparr>bd_addr = [1, 2, 3, 4, 5, 6], conn_id_cs = 1, connected_cs = False\<rparr>)
      = Inr (WICED_BT_GATT_SUCCESS,
             (example_world BLE_CONTEXT_TAG_VALID 0 disconnected_and_advertising)
               \<lparr>trace := [Start_advertisements BTM_BLE_ADVERT_UNDIRECTED_HIGH,
                          Led_stop, Led_set_blink_rate duty_blinking, Led_start]\<rparr>)"
  by (simp add: connection_event_handler_def ble_gatt_event_callback_def CY_ASSERT_def
      update_advertising_led_def emit_def Let_def reference_env_def example_world_def)

section \<open>Properties of the update session\<close>

text \<open>
  C9. A write to the control point whose first byte is the prepare-download command,
  while \<^verbatim>\<open>m_tag\<close> is not the valid tag: \<^verbatim>\<open>ota_agent_initialize\<close> returns the bad-argument
  result, the write handlers return \<^verbatim>\<open>WICED_BT_GATT_ERROR\<close>, and the state comes back
  unchanged, so the engine was not started. Delivered as a write request through the
  stack callback, the only effect is the error response.
\<close>

theorem prepare_with_invalid_tag:
  assumes "m_tag (ble_context_object w) \<noteq> OTA_APP_TAG_VALID"
    and "handle_wr rq = HDLC_OTA_FW_UPGRADE_SERVICE_OTA_UPGRADE_CONTROL_POINT_VALUE env"
    and "HDLD_OTA_FW_UPGRADE_SERVICE_OTA_UPGRADE_CONTROL_POINT_CLIENT_CHAR_CONFIG env
           \<noteq> HDLC_OTA_FW_UPGRADE_SERVICE_OTA_UPGRADE_CONTROL_POINT_VALUE env"
    and "deref (p_val rq) = CY_OTA_UPGRADE_COMMAND_PREPARE_DOWNLOAD env # rest"
  shows "ota_agent_initialize env w = Inr (CY_RSLT_OTA_ERROR_BADARG, w)
       \<and> ota_agent_write_handler env w rq = Inr ((WICED_BT_GATT_ERROR, handle_wr rq), w)
       \<and> ble_gatt_command_write_handler env w rq = Inr ((WICED_BT_GATT_ERROR, handle_wr rq), w)
       \<and> (opcode ar = GATT_REQ_WRITE \<and> write_req (data ar) = rq \<longrightarrow>
            ble_gatt_event_callback env w (GATT_ATTRIBUTE_REQUEST_EVT ar)
              = Inr (WICED_BT_GATT_ERROR,
                     emit (Send_error_rsp (conn_id ar) GATT_REQ_WRITE (handle_wr rq)
                             WICED_BT_GATT_ERROR) w))"
proof -
  have init: "ota_agent_initialize env w = Inr (CY_RSLT_OTA_ERROR_BADARG, w)"
    using assms(1) by (simp add: ota_agent_initialize_def)
  have ota: "ota_agent_write_handler env w rq = Inr ((WICED_BT_GATT_ERROR, handle_wr rq), w)"
    using assms(2,3,4) init by (simp add: ota_agent_write_handler_def Let_def)
  have wr: "ble_gatt_command_write_handler env w rq = Inr ((WICED_BT_GATT_ERROR, handle_wr rq), w)"
    using assms(2) ota by (simp add: ble_gatt_command_write_handler_def Let_def)
  have cb: "opcode ar = GATT_REQ_WRITE \<and> write_req (data ar) = rq \<longrightarrow>
            ble_gatt_event_callback env w (GATT_ATTRIBUTE_REQUEST_EVT ar)
              = Inr (WICED_BT_GATT_ERROR,
                     emit (Send_error_rsp (conn_id ar) GATT_REQ_WRITE (handle_wr rq)
                             WICED_BT_GATT_ERROR) w)"
    using wr by (simp add: ble_gatt_event_callback_def ble_gatt_event_handler_def Let_def)
  from init ota wr cb show ?thesis by blast
qed

theorem prepare_with_invalid_tag_witness:
  "m_tag (ble_context_object (example_world BLE_CONTEXT_TAG_INVALID 1 connected)) \<noteq> OTA_APP_TAG_VALID
   \<and> handle_wr (write_req example_data)
       = HDLC_OTA_FW_UPGRADE_SERVICE_OTA_UPGRADE_CONTROL_POINT_VALUE
           (reference_env [] True WICED_BT_SUCCESS)
   \<and> deref (p_val (write_req example_data))
       = CY_OTA_UPGRADE_COMMAND_PREPARE_DOWNLOAD (reference_env [] True WICED_BT_SUCCESS) # []
   \<and> ota_agent_write_handler (reference_env [] True WICED_BT_SUCCESS)
        (example_world BLE_CONTEXT_TAG_INVALID 1 connected) (write_req example_data)
      = Inr ((WICED_BT_GATT_ERROR, 0x22), example_world BLE_CONTEXT_TAG_INVALID 1 connected)
   \<and> ble_gatt_event_callback (reference_env [] True WICED_BT_SUCCESS)
        (example_world BLE_CONTEXT_TAG_INVALID 1 connected)
        (GATT_ATTRIBUTE_REQUEST_EVT (example_request GATT_REQ_WRITE 0))
      = Inr (WICED_BT_GATT_ERROR,
             emit (Send_error_rsp 1 GATT_REQ_WRITE 0x22 WICED_BT_GATT_ERROR)
               (example_world BLE_CONTEXT_TAG_INVALID 1 connected))
   \<and> ota_agent_write_handler (reference_env [] True WICED_BT_SUCCESS)
        (example_world BLE_CONTEXT_TAG_VALID 1 connected) (write_req example_data)
      = Inr ((WICED_BT_GATT_SUCCESS, 0x22),
             (example_world BLE_CONTEXT_TAG_VALID 1 connected)
               \<lparr>ble_context_object :=
                   (ble_context_object (example_world BLE_CONTEXT_TAG_VALID 1 connected))
                     \<lparr>m_ota_context := Some 1, m_connection_type := CY_OTA_CONNECTION_BLE,
                      m_reboot_at_end := True\<rparr>,
                trace := [Ota_agent_start, Ota_ble_download_prepare (Some 1) 1 0]\<rparr>)"
proof -
  let ?env = "reference_env [] True WICED_BT_SUCCESS"
  let ?w = "example_world BLE_CONTEXT_TAG_INVALID 1 connected"
  let ?rq = "write_req example_data"
  have h1: "m_tag (ble_context_object ?w) \<noteq> OTA_APP_TAG_VALID"
    by (simp add: example_world_def BLE_CONTEXT_TAG_INVALID_def OTA_APP_TAG_VALID_def)
  have h2: "handle_wr ?rq = HDLC_OTA_FW_UPGRADE_SERVICE_OTA_UPGRADE_CONTROL_POINT_VALUE ?env"
    by (simp add: example_data_def reference_env_def)
  have h3: "HDLD_OTA_FW_UPGRADE_SERVICE_OTA_UPGRADE_CONTROL_POINT_CLIENT_CHAR_CONFIG ?env
           \<noteq> HDLC_OTA_FW_UPGRADE_SERVICE_OTA_UPGRADE_CONTROL_POINT_VALUE ?env"
    by (simp add: reference_env_def)
  have h4: "deref (p_val ?rq) = CY_OTA_UPGRADE_COMMAND_PREPARE_DOWNLOAD ?env # []"
    by (simp add: example_data_def reference_env_def deref_def)
  have h5: "opcode (example_request GATT_REQ_WRITE 0) = GATT_REQ_WRITE
            \<and> write_req (data (example_request GATT_REQ_WRITE 0)) = ?rq"
    by (simp add: example_request_def)
  note t = prepare_with_invalid_tag [OF h1 h2 h3 h4, of "example_request GATT_REQ_WRITE 0"]
  from t have a: "ota_agent_write_handler ?env ?w ?rq = Inr ((WICED_BT_GATT_ERROR, 0x22), ?w)"
    by (simp add: example_data_def)
  from t h5 have b: "ble_gatt_event_callback ?env ?w
        (GATT_ATTRIBUTE_REQUEST_EVT (example_request GATT_REQ_WRITE 0))
      = Inr (WICED_BT_GATT_ERROR,
             emit (Send_error_rsp 1 GATT_REQ_WRITE 0x22 WICED_BT_GATT_ERROR) ?w)"
    by (simp add: example_data_def example_request_def)
  have c: "ota_agent_write_handler ?env
        (example_world BLE_CONTEXT_TAG_VALID 1 connected) ?rq
      = Inr ((WICED_BT_GATT_SUCCESS, 0x22),
             (example_world BLE_CONTEXT_TAG_VALID 1 connected)
               \<lparr>ble_context_object :=
                   (ble_context_object (example_world BLE_CONTEXT_TAG_VALID 1 connected))
                     \<lparr>m_ota_context := Some 1, m_connection_type := CY_OTA_CONNECTION_BLE,
                      m_reboot_at_end := True\<rparr>,
                trace := [Ota_agent_start, Ota_ble_download_prepare (Some 1) 1 0]\<rparr>)"
    by (simp add: ota_agent_write_handler_def ota_agent_initialize_def ota_value_initialize_def
        example_data_def reference_env_def example_world_def deref_def emit_def gatt_status_of_def
        BLE_CONTEXT_TAG_VALID_def OTA_APP_TAG_VALID_def Let_def)
  from h1 h2 h4 a b c show ?thesis by simp
qed

section \<open>The dispatcher on opcodes it does not name\<close>

text \<open>
  C6, on the code. For an opcode that the dispatcher does not name, the status it
  returns is the initial \<^verbatim>\<open>WICED_BT_GATT_SUCCESS\<close>, nothing is sent, and the stack
  callback, which sends the error response only for a status other than success,
  returns success without any effect.
\<close>

theorem unnamed_opcode_reports_success:
  "ble_gatt_event_handler env w (rq\<lparr>opcode := GATT_REQ_READ_BY_GRP_TYPE\<rparr>) eh
     = Inr ((WICED_BT_GATT_SUCCESS, eh), w)
   \<and> ble_gatt_event_callback env w (GATT_ATTRIBUTE_REQUEST_EVT (rq\<lparr>opcode := GATT_REQ_READ_BY_GRP_TYPE\<rparr>))
     = Inr (WICED_BT_GATT_SUCCESS, w)
   \<and> ble_gatt_event_callback env w (GATT_ATTRIBUTE_REQUEST_EVT (rq\<lparr>opcode := GATT_REQ_FIND_INFO\<rparr>))
     = Inr (WICED_BT_GATT_SUCCESS, w)
   \<and> ble_gatt_event_callback env w (GATT_ATTRIBUTE_REQUEST_EVT (rq\<lparr>opcode := GATT_REQ_FIND_TYPE_VALUE\<rparr>))
     = Inr (WICED_BT_GATT_SUCCESS, w)
   \<and> ble_gatt_event_callback env w (GATT_ATTRIBUTE_REQUEST_EVT (rq\<lparr>opcode := GATT_HANDLE_VALUE_IND\<rparr>))
     = Inr (WICED_BT_GATT_SUCCESS, w)
   \<and> ble_gatt_event_callback env w (GATT_ATTRIBUTE_REQUEST_EVT (rq\<lparr>opcode := GATT_HANDLE_VALUE_MULTI_NOTIF\<rparr>))
     = Inr (WICED_BT_GATT_SUCCESS, w)"
  by (simp add: ble_gatt_event_handler_def ble_gatt_event_callback_def Let_def)

section \<open>Properties of the multi-attribute reads\<close>

lemma read_by_type_loop_returns:
  "fills_within_stream env \<Longrightarrow> 0 \<le> used \<Longrightarrow> used \<le> uint length_requested \<Longrightarrow>
     \<exists>x. read_by_type_loop env tbl read_request length_requested attr_handle pair_length
            used response = Inr x"
proof (induction env tbl read_request length_requested attr_handle pair_length used response
    rule: read_by_type_loop.induct)
  case (1 env tbl read_request length_requested attr_handle pair_length used response)
  let ?found = "wiced_bt_gatt_find_handle_by_type env attr_handle (e_handle read_request)
                  (uuid read_request)"
  show ?case
  proof (cases "?found = 0")
    case True
    then show ?thesis by (simp add: read_by_type_loop.simps [of env tbl] Let_def)
  next
    case nz: False
    show ?thesis
    proof (cases "ble_gatt_db_find_by_handle tbl ?found")
      case None
      with nz show ?thesis by (simp add: read_by_type_loop.simps [of env tbl] Let_def)
    next
      case (Some attribute)
      let ?put = "wiced_bt_gatt_put_read_by_type_rsp_in_stream env
                    (uint length_requested - used) pair_length ?found
                    (cur_len attribute) (p_data attribute)"
      let ?filled = "int (length (fst ?put))"
      show ?thesis
      proof (cases "?filled = 0")
        case True
        with nz Some show ?thesis
          by (simp add: read_by_type_loop.simps [of env tbl] Let_def)
      next
        case fz: False
        from "1.prems"(1) have "?filled \<le> max 0 (uint length_requested - used)"
          unfolding fills_within_stream_def by blast
        with "1.prems"(3) have le: "used + ?filled \<le> uint length_requested" by simp
        have "uint length_requested < 2 ^ 16" using uint_lt2p [of length_requested] by simp
        with le have no: "\<not> used + ?filled > INT_MAX" by (simp add: INT_MAX_def)
        from "1.prems"(2) have ge: "0 \<le> used + ?filled" by simp
        from "1.IH" [OF refl refl nz Some refl refl fz no "1.prems"(1) ge le]
        obtain x where "read_by_type_loop env tbl read_request length_requested (?found + 1)
                          (snd ?put) (used + ?filled) (response @ fst ?put) = Inr x"
          by blast
        with nz Some fz no show ?thesis
          by (simp add: read_by_type_loop.simps [of env tbl _ _ attr_handle] Let_def)
      qed
    qed
  qed
qed

lemma read_by_type_handler_outcomes:
  "(\<not> malloc_succeeds env (unat len)
      \<and> ble_gatt_request_read_by_type_handler env w c opc rq len eh
          = Inr ((WICED_BT_GATT_INSUF_RESOURCE, eh), emit (Malloc (unat len) False) w))
   \<or> (\<exists>eh'. ble_gatt_request_read_by_type_handler env w c opc rq len eh
          = Inr ((WICED_BT_GATT_INVALID_HANDLE, eh'), emit Free (emit (Malloc (unat len) True) w)))
   \<or> (\<exists>eh' pl used resp. used \<noteq> 0
        \<and> ble_gatt_request_read_by_type_handler env w c opc rq len eh
          = Inr ((WICED_BT_GATT_SUCCESS, eh'),
                 emit (Send_read_by_type_rsp c opc pl used resp Release_free)
                   (emit (Malloc (unat len) True) w)))
   \<or> (\<exists>f. ble_gatt_request_read_by_type_handler env w c opc rq len eh
          = Inl (f, emit (Malloc (unat len) True) w))"
  by (auto simp: ble_gatt_request_read_by_type_handler_def Let_def
      split: sum.splits read_by_type_exit.splits)

text \<open>
  C5. When the scan from the start of the range finds no handle of the type, the
  read-by-type handler frees the buffer it allocated, returns
  \<^verbatim>\<open>WICED_BT_GATT_INVALID_HANDLE\<close> and sends nothing. On every way out the buffer is
  accounted for: it was never allocated (insufficient resources), or it was freed, or
  it went to the stack in the one response sent, together with \<^verbatim>\<open>std::free\<close> as its
  release. With an encoder that fills no more than its stream holds, the handler
  always takes one of these ways out.
\<close>

theorem read_by_type_releases_buffer:
  "(malloc_succeeds env (unat len)
      \<and> wiced_bt_gatt_find_handle_by_type env (s_handle rq) (e_handle rq) (uuid rq) = 0 \<longrightarrow>
        ble_gatt_request_read_by_type_handler env w c opc rq len eh
          = Inr ((WICED_BT_GATT_INVALID_HANDLE, s_handle rq),
                 emit Free (emit (Malloc (unat len) True) w)))
   \<and> (\<forall>r w'. ble_gatt_request_read_by_type_handler env w c opc rq len eh = Inr (r, w') \<longrightarrow>
         (\<not> malloc_succeeds env (unat len) \<and> fst r = WICED_BT_GATT_INSUF_RESOURCE
            \<and> w' = emit (Malloc (unat len) False) w)
       \<or> (fst r = WICED_BT_GATT_INVALID_HANDLE
            \<and> w' = emit Free (emit (Malloc (unat len) True) w))
       \<or> (fst r = WICED_BT_GATT_SUCCESS
            \<and> (\<exists>pl used resp. used \<noteq> 0
                  \<and> w' = emit (Send_read_by_type_rsp c opc pl used resp Release_free)
                           (emit (Malloc (unat len) True) w))))
   \<and> (fills_within_stream env \<longrightarrow>
        (\<exists>r w'. ble_gatt_request_read_by_type_handler env w c opc rq len eh = Inr (r, w')))"
proof (intro conjI impI allI)
  assume "malloc_succeeds env (unat len)
      \<and> wiced_bt_gatt_find_handle_by_type env (s_handle rq) (e_handle rq) (uuid rq) = 0"
  then show "ble_gatt_request_read_by_type_handler env w c opc rq len eh
          = Inr ((WICED_BT_GATT_INVALID_HANDLE, s_handle rq),
                 emit Free (emit (Malloc (unat len) True) w))"
    by (simp add: ble_gatt_request_read_by_type_handler_def Let_def
        read_by_type_loop.simps [of env _ rq len "s_handle rq"])
next
  fix r w'
  assume "ble_gatt_request_read_by_type_handler env w c opc rq len eh = Inr (r, w')"
  with read_by_type_handler_outcomes [of env len w c opc rq eh]
  show "(\<not> malloc_succeeds env (unat len) \<and> fst r = WICED_BT_GATT_INSUF_RESOURCE
            \<and> w' = emit (Malloc (unat len) False) w)
       \<or> (fst r = WICED_BT_GATT_INVALID_HANDLE
            \<and> w' = emit Free (emit (Malloc (unat len) True) w))
       \<or> (fst r = WICED_BT_GATT_SUCCESS
            \<and> (\<exists>pl used resp. used \<noteq> 0
                  \<and> w' = emit (Send_read_by_type_rsp c opc pl used resp Release_free)
                           (emit (Malloc (unat len) True) w)))"
    by auto
next
  assume fills: "fills_within_stream env"
  have "0 \<le> uint len" by simp
  from read_by_type_loop_returns [OF fills order_refl this]
  obtain x where "read_by_type_loop env (app_gatt_db_ext_attr_tbl w) rq len (s_handle rq) 0 0 []
                    = Inr x"
    by blast
  then show "\<exists>r w'. ble_gatt_request_read_by_type_handler env w c opc rq len eh = Inr (r, w')"
    by (cases x) (simp_all add: ble_gatt_request_read_by_type_handler_def Let_def)
qed

lemma reference_env_fills_within_stream:
  "fills_within_stream (reference_env typed allocates advertising)"
  by (simp add: fills_within_stream_def reference_env_def
      stack_put_read_by_type_rsp_in_stream_def Let_def)

theorem read_by_type_releases_buffer_witness:
  "malloc_succeeds (reference_env [] True WICED_BT_SUCCESS) (unat (23 :: uint16_t))
   \<and> wiced_bt_gatt_find_handle_by_type (reference_env [] True WICED_BT_SUCCESS)
        (s_handle (read_by_type example_data)) (e_handle (read_by_type example_data))
        (uuid (read_by_type example_data)) = 0
   \<and> fills_within_stream (reference_env [] True WICED_BT_SUCCESS)
   \<and> ble_gatt_request_read_by_type_handler (reference_env [] True WICED_BT_SUCCESS)
        (example_world BLE_CONTEXT_TAG_VALID 1 connected) 1 GATT_REQ_READ_BY_TYPE
        (read_by_type example_data) 23 0
      = Inr ((WICED_BT_GATT_INVALID_HANDLE, 1),
             emit Free (emit (Malloc 23 True) (example_world BLE_CONTEXT_TAG_VALID 1 connected)))
   \<and> ble_gatt_request_read_by_type_handler (reference_env [1, 2] True WICED_BT_SUCCESS)
        (example_world BLE_CONTEXT_TAG_VALID 1 connected) 1 GATT_REQ_READ_BY_TYPE
        (read_by_type example_data) 23 0
      = Inr ((WICED_BT_GATT_SUCCESS, 2),
             emit (Send_read_by_type_rsp 1 GATT_REQ_READ_BY_TYPE 3 3 [1, 0, 100] Release_free)
               (emit (Malloc 23 True) (example_world BLE_CONTEXT_TAG_VALID 1 connected)))"
proof -
  let ?env = "reference_env [] True WICED_BT_SUCCESS"
  let ?w = "example_world BLE_CONTEXT_TAG_VALID 1 connected"
  let ?rq = "read_by_type example_data"
  have h1: "malloc_succeeds ?env (unat (23 :: uint16_t))
      \<and> wiced_bt_gatt_find_handle_by_type ?env (s_handle ?rq) (e_handle ?rq) (uuid ?rq) = 0"
    by (simp add: reference_env_def)
  have h2: "fills_within_stream ?env" by (rule reference_env_fills_within_stream)
  note t = read_by_type_releases_buffer [of ?env 23 ?rq ?w 1 GATT_REQ_READ_BY_TYPE 0]
  from t h1 have a: "ble_gatt_request_read_by_type_handler ?env ?w 1 GATT_REQ_READ_BY_TYPE ?rq 23 0
      = Inr ((WICED_BT_GATT_INVALID_HANDLE, 1), emit Free (emit (Malloc 23 True) ?w))"
    by (simp add: example_data_def)
  from t h2 have "\<exists>r w'. ble_gatt_request_read_by_type_handler ?env ?w 1 GATT_REQ_READ_BY_TYPE
                           ?rq 23 0 = Inr (r, w')"
    by blast
  have b: "ble_gatt_request_read_by_type_handler (reference_env [1, 2] True WICED_BT_SUCCESS)
        ?w 1 GATT_REQ_READ_BY_TYPE ?rq 23 0
      = Inr ((WICED_BT_GATT_SUCCESS, 2),
             emit (Send_read_by_type_rsp 1 GATT_REQ_READ_BY_TYPE 3 3 [1, 0, 100] Release_free)
               (emit (Malloc 23 True) ?w))"
    by code_simp
  from h1 h2 a b show ?thesis by simp
qed










text \<open>
  The claim of C3 as it was stated fails when a handle before the missing one fills
  nothing after bytes were gathered. With room for one byte and the handles 1 (one
  byte), 2 (four bytes) and 9 (not in the table), handle 1 takes the room, nothing can
  be filled for handle 2, the loop breaks there, and the handler sends the byte of
  handle 1 and returns success. Both encoders, the one that refuses and the one that
  cuts, give this run; so does every encoder that stays within its stream and puts
  the byte of handle 1.
\<close>

lemma read_multi_partial_response_any_stack:
  assumes "multi_fills_within_stream env"
    and "malloc_succeeds env 1"
    and "wiced_bt_gatt_put_read_multi_rsp_in_stream env GATT_REQ_READ_MULTI 1 1 1 (Some [100]) \<noteq> []"
  shows "\<exists>b. ble_gatt_request_read_multi_handler env
                (example_world BLE_CONTEXT_TAG_VALID 1 connected) 1 GATT_REQ_READ_MULTI
                (read_multiple_req example_data) 1
              = Inr ((WICED_BT_GATT_SUCCESS, 2),
                     emit (Send_read_multiple_rsp 1 GATT_REQ_READ_MULTI 1 [b] Release_free)
                       (emit (Malloc 1 True) (example_world BLE_CONTEXT_TAG_VALID 1 connected)))"
proof -
  let ?p1 = "wiced_bt_gatt_put_read_multi_rsp_in_stream env GATT_REQ_READ_MULTI 1 1 1 (Some [100])"
  let ?p2 = "wiced_bt_gatt_put_read_multi_rsp_in_stream env GATT_REQ_READ_MULTI 0 2 4
               (Some [9, 8, 7, 6])"
  from assms(1) have "int (length ?p1) \<le> max 0 1" and "int (length ?p2) \<le> max 0 0"
    unfolding multi_fills_within_stream_def by blast+
  with assms(3) have l1: "length ?p1 = 1" and p2: "?p2 = []" by (cases ?p1; simp)+
  from l1 obtain b where p1: "?p1 = [b]" by (cases ?p1) auto
  have hs: "handles_of (read_multiple_req example_data) = [1, 2, 9]" by code_simp
  have "read_multi_loop env example_tbl GATT_REQ_READ_MULTI 1 [1, 2, 9] 1 0 []
          = Inr (Multi_stopped 2 1 [b])"
    using p1 p2 by (simp add: example_tbl_def INT_MAX_def Let_def)
  with assms(2) hs have "ble_gatt_request_read_multi_handler env
                (example_world BLE_CONTEXT_TAG_VALID 1 connected) 1 GATT_REQ_READ_MULTI
                (read_multiple_req example_data) 1
              = Inr ((WICED_BT_GATT_SUCCESS, 2),
                     emit (Send_read_multiple_rsp 1 GATT_REQ_READ_MULTI 1 [b] Release_free)
                       (emit (Malloc 1 True) (example_world BLE_CONTEXT_TAG_VALID 1 connected)))"
    by (simp add: ble_gatt_request_read_multi_handler_def example_world_def example_data_def
        Let_def)
  then show ?thesis by blast
qed


text \<open>
  C4, as the code has it. When \<^verbatim>\<open>std::malloc\<close> returns \<^verbatim>\<open>nullptr\<close>, the read-by-type
  handler returns \<^verbatim>\<open>WICED_BT_GATT_INSUF_RESOURCE\<close> and the read-multiple handler returns
  \<^verbatim>\<open>WICED_BT_GATT_INVALID_HANDLE\<close>, as its header documents; neither sends anything.
\<close>

theorem allocation_failure_status:
  assumes "\<not> malloc_succeeds env (unat len)"
  shows "ble_gatt_request_read_by_type_handler env w c opc rq len eh
           = Inr ((WICED_BT_GATT_INSUF_RESOURCE, eh), emit (Malloc (unat len) False) w)
       \<and> ble_gatt_request_read_multi_handler env w c opc' mrq len
           = Inr ((WICED_BT_GATT_INVALID_HANDLE, p_handle_stream mrq 0),
                  emit (Malloc (unat len) False) w)"
  using assms
  by (simp add: ble_gatt_request_read_by_type_handler_def
      ble_gatt_request_read_multi_handler_def Let_def)

theorem allocation_failure_status_witness:
  "\<not> malloc_succeeds (reference_env [] False WICED_BT_SUCCESS) (unat (23 :: uint16_t))
   \<and> ble_gatt_request_read_by_type_handler (reference_env [] False WICED_BT_SUCCESS)
        (example_world BLE_CONTEXT_TAG_VALID 1 connected) 1 GATT_REQ_READ_BY_TYPE
        (read_by_type example_data) 23 0
      = Inr ((WICED_BT_GATT_INSUF_RESOURCE, 0),
             emit (Malloc 23 False) (example_world BLE_CONTEXT_TAG_VALID 1 connected))
   \<and> ble_gatt_request_read_multi_handler (reference_env [] False WICED_BT_SUCCESS)
        (example_world BLE_CONTEXT_TAG_VALID 1 connected) 1 GATT_REQ_READ_MULTI
        (read_multiple_req example_data) 23
      = Inr ((WICED_BT_GATT_INVALID_HANDLE, 1),
             emit (Malloc 23 False) (example_world BLE_CONTEXT_TAG_VALID 1 connected))"
proof -
  have h: "\<not> malloc_succeeds (reference_env [] False WICED_BT_SUCCESS) (unat (23 :: uint16_t))"
    by (simp add: reference_env_def)
  from allocation_failure_status [OF h,
      of "example_world BLE_CONTEXT_TAG_VALID 1 connected" 1 GATT_REQ_READ_BY_TYPE
         "read_by_type example_data" 0 GATT_REQ_READ_MULTI "read_multiple_req example_data"]
    h
  show ?thesis by (simp add: example_data_def)
qed

theorem read_multi_allocation_failure_counterexample:
  "\<not> malloc_succeeds (reference_env [] False WICED_BT_SUCCESS) (unat (23 :: uint16_t))
   \<and> ble_gatt_request_read_multi_handler (reference_env [] False WICED_BT_SUCCESS)
        (example_world BLE_CONTEXT_TAG_VALID 1 connected) 1 GATT_REQ_READ_MULTI
        (read_multiple_req example_data) 23
      = Inr ((WICED_BT_GATT_INVALID_HANDLE, 1),
             emit (Malloc 23 False) (example_world BLE_CONTEXT_TAG_VALID 1 connected))
   \<and> WICED_BT_GATT_INVALID_HANDLE \<noteq> WICED_BT_GATT_INSUF_RESOURCE"
  by (simp add: ble_gatt_request_read_multi_handler_def reference_env_def example_data_def
      Let_def)

end
